theory Spec2Isabelle
  imports Complex_Main "HOL-Library.Word" "HOL-Library.Multiset"
begin

unbundle bit_operations_syntax

section \<open>Values that cross the boundary\<close>

text \<open>
  Pointers (library handles, function pointers, opaque native handles, heap blocks) are
  natural numbers; \<open>0\<close> is \<open>NULL\<close>.  \<open>UINT32\<close>, \<open>ULONG\<close>, \<open>NTSTATUS\<close> and \<open>HRESULT\<close>
  are 32-bit words.  The status codes have the values of \<open>ntstatus.h\<close> and
  \<open>winerror.h\<close>.
\<close>

type_synonym ptr = nat
type_synonym UINT32 = "32 word"
type_synonym NTSTATUS = "32 word"
type_synonym HRESULT = "32 word"

definition STATUS_SUCCESS :: NTSTATUS where
  "STATUS_SUCCESS = 0"

definition STATUS_UNSUCCESSFUL :: NTSTATUS where
  "STATUS_UNSUCCESSFUL = 0xC0000001"

definition STATUS_INVALID_PARAMETER :: NTSTATUS where
  "STATUS_INVALID_PARAMETER = 0xC000000D"

definition STATUS_NOT_SUPPORTED :: NTSTATUS where
  "STATUS_NOT_SUPPORTED = 0xC00000BB"

definition S_OK :: HRESULT where
  "S_OK = 0"

definition E_NOTIMPL :: HRESULT where
  "E_NOTIMPL = 0x80004001"

definition E_FAIL :: HRESULT where
  "E_FAIL = 0x80004005"

definition E_OUTOFMEMORY :: HRESULT where
  "E_OUTOFMEMORY = 0x8007000E"

subsection \<open>The C type double\<close>

text \<open>
  A \<open>double\<close> is a finite value, negative zero, an infinity or a NaN (\<open>Fin 0\<close> is
  positive zero).  Comparisons follow IEEE 754: every ordered comparison with a NaN is
  false.  Division follows IEEE 754 on the special values; the quotient of two finite
  nonzero values is rounded by a function the environment supplies, so that nothing
  below depends on how the hardware rounds.
\<close>

datatype double = Fin real | NZero | PInf | NInf | NaN

fun dreal :: "double \<Rightarrow> real" where
  "dreal (Fin r) = r"
| "dreal NZero = 0"
| "dreal PInf = 0"
| "dreal NInf = 0"
| "dreal NaN = 0"

fun is_inf :: "double \<Rightarrow> bool" where
  "is_inf PInf = True"
| "is_inf NInf = True"
| "is_inf (Fin r) = False"
| "is_inf NZero = False"
| "is_inf NaN = False"

fun signbit :: "double \<Rightarrow> bool" where
  "signbit (Fin r) = (r < 0)"
| "signbit NZero = True"
| "signbit PInf = False"
| "signbit NInf = True"
| "signbit NaN = False"

text \<open>\<open>dle a b\<close> is the C comparison \<open>a <= b\<close>, \<open>dgt a b\<close> is \<open>a > b\<close>.\<close>

fun dle :: "double \<Rightarrow> double \<Rightarrow> bool" where
  "dle NaN b = False"
| "dle a NaN = False"
| "dle NInf b = True"
| "dle a PInf = True"
| "dle PInf b = False"
| "dle a NInf = False"
| "dle a b = (dreal a \<le> dreal b)"

fun dgt :: "double \<Rightarrow> double \<Rightarrow> bool" where
  "dgt NaN b = False"
| "dgt a NaN = False"
| "dgt a PInf = False"
| "dgt NInf b = False"
| "dgt PInf b = True"
| "dgt a NInf = True"
| "dgt a b = (dreal a > dreal b)"

definition signed_inf :: "bool \<Rightarrow> double" where
  "signed_inf neg = (if neg then NInf else PInf)"

definition signed_zero :: "bool \<Rightarrow> double" where
  "signed_zero neg = (if neg then NZero else Fin 0)"

text \<open>The C division \<open>a / b\<close> on doubles; \<open>rnd\<close> rounds the exact quotient.\<close>

definition ddiv :: "(real \<Rightarrow> double) \<Rightarrow> double \<Rightarrow> double \<Rightarrow> double" where
  "ddiv rnd a b =
     (if a = NaN \<or> b = NaN then NaN
      else if is_inf a then (if is_inf b then NaN else signed_inf (signbit a \<noteq> signbit b))
      else if is_inf b then signed_zero (signbit a \<noteq> signbit b)
      else if dreal b = 0 then
        (if dreal a = 0 then NaN else signed_inf (signbit a \<noteq> signbit b))
      else if dreal a = 0 then signed_zero (signbit a \<noteq> signbit b)
      else rnd (dreal a / dreal b))"

text \<open>The conversion \<open>(double)w\<close> of a \<open>UINT32\<close>: exact.\<close>

definition double_of_uint32 :: "UINT32 \<Rightarrow> double" where
  "double_of_uint32 w = Fin (real (unat w))"

text \<open>
  The literals of \<open>rsvg_render\<close>.  \<open>0.01\<close> is not a binary fraction: the literal
  denotes the nearest double, \<open>5764607523034235 / 2^59\<close>.
\<close>

definition lit_0_01 :: double where
  "lit_0_01 = Fin (5764607523034235 / 2 ^ 59)"

definition lit_0_0 :: double where
  "lit_0_0 = Fin 0"

definition lit_1000_0 :: double where
  "lit_1000_0 = Fin 1000"

subsection \<open>The x87 floating-point unit\<close>

record x87 =
  control_word :: "16 word"
  status_word :: "16 word"
  tag_word :: "16 word"

text \<open>What the instruction \<open>fninit\<close> leaves: all exceptions masked, no flag set, every
  register empty.\<close>

definition fninit :: x87 where
  "fninit = \<lparr>control_word = 0x037F, status_word = 0, tag_word = 0xFFFF\<rparr>"

subsection \<open>The SSE control and status register\<close>

text \<open>
  Besides the x87 unit a thread has the SSE register \<open>MXCSR\<close>: its low six bits are
  exception flags (bit 0 invalid operation, bit 2 division by zero), and a flag stays
  set until it is cleared.  \<open>fninit\<close> does not touch \<open>MXCSR\<close>.  A thread starts with
  \<open>0x1F80\<close>: every exception masked, no flag set.  On x86-64 arithmetic on \<open>double\<close> is
  done by SSE2 instructions, which raise their flags there.  Which flags an instruction
  of \<open>rsvg_render\<close> raises is left to the environment (\<open>sse_flags\<close>); code compiled
  to x87 instructions raises none in \<open>MXCSR\<close>.
\<close>

definition MXCSR_DEFAULT :: "32 word" where
  "MXCSR_DEFAULT = 0x1F80"

definition MXCSR_IE :: "32 word" where
  "MXCSR_IE = 0x01"

definition MXCSR_ZE :: "32 word" where
  "MXCSR_ZE = 0x04"

text \<open>The floating-point instructions of \<open>rsvg_render\<close>, with their operands.\<close>

datatype fp_op = Divide double double | Compare double double

text \<open>
  The flags of the SSE2 instructions on x86-64 when no operand is denormal and every
  quotient of finite values is exact: division of a nonzero finite value by zero is a
  division by zero, \<open>0 / 0\<close> and \<open>inf / inf\<close> are invalid, an ordered comparison with a
  NaN is invalid, a NaN operand of a division passes through quietly.
\<close>

fun ieee_flags :: "fp_op \<Rightarrow> 32 word" where
  "ieee_flags (Divide a b) =
     (if a = NaN \<or> b = NaN then 0
      else if is_inf a then (if is_inf b then MXCSR_IE else 0)
      else if is_inf b then 0
      else if dreal b = 0 then (if dreal a = 0 then MXCSR_IE else MXCSR_ZE)
      else 0)"
| "ieee_flags (Compare a b) = (if a = NaN \<or> b = NaN then MXCSR_IE else 0)"

subsection \<open>Parameter blocks (unixlib.h)\<close>

record rsvg_create_params =
  data :: "8 word list"
  size :: UINT32
  handle :: ptr

record rsvg_free_params =
  free_handle :: ptr

record rsvg_render_params =
  render_handle :: ptr
  pixels :: ptr
  svg_width :: double
  svg_height :: double
  width :: UINT32
  height :: UINT32
  stride :: UINT32
  padding :: UINT32

record RsvgRectangle =
  rect_x :: double
  rect_y :: double
  rect_width :: double
  rect_height :: double

section \<open>The outside world\<close>

text \<open>
  Every call that leaves the two source files is an event of the trace, in program
  order: the dynamic linker, the two native libraries, the process heap, the stream and
  the factory.  An event carries the arguments of the call and, last, the pointer it
  returned (the parser returns a handle and an error object).
\<close>

datatype event =
    Dlopen string ptr
  | Dlsym ptr string ptr
  | Dlclose ptr
  | Rsvg_handle_new_from_data "8 word list" UINT32 ptr ptr
  | G_error_free ptr
  | G_object_unref ptr
  | Rsvg_handle_render_document ptr ptr RsvgRectangle
  | Cairo_image_surface_create_for_data ptr int UINT32 UINT32 UINT32 ptr
  | Cairo_create ptr ptr
  | Cairo_destroy ptr
  | Cairo_surface_destroy ptr
  | Cairo_scale ptr double double
  | IStream_Stat
  | IStream_Read
  | HeapAlloc nat ptr
  | HeapAllocZero ptr
  | HeapFree ptr
  | ID2D1Factory_AddRef ptr
  | ID2D1Factory_Release ptr

text \<open>
  What the native side answers: the results of \<open>dlopen\<close> and \<open>dlsym\<close>, of the parser
  (a handle and an error object, either may be \<open>NULL\<close>), of surface and context
  creation, what a native call does to the x87 unit and to \<open>MXCSR\<close>; and what the
  processor does: how a quotient of doubles is rounded, and which flags of \<open>MXCSR\<close> a
  floating-point instruction raises.
\<close>

record native_env =
  dlopen_ret :: "string \<Rightarrow> ptr"
  dlsym_ret :: "ptr \<Rightarrow> string \<Rightarrow> ptr"
  new_from_data_ret :: "8 word list \<Rightarrow> UINT32 \<Rightarrow> ptr \<times> ptr"
  surface_create_ret :: "ptr \<Rightarrow> UINT32 \<Rightarrow> UINT32 \<Rightarrow> UINT32 \<Rightarrow> ptr"
  cairo_create_ret :: "ptr \<Rightarrow> ptr"
  fpu_effect :: "event \<Rightarrow> x87 \<Rightarrow> x87"
  mxcsr_effect :: "event \<Rightarrow> 32 word \<Rightarrow> 32 word"
  round_quotient :: "real \<Rightarrow> double"
  sse_flags :: "fp_op \<Rightarrow> 32 word"

text \<open>
  Modelled from the spec: \<open>struct d2d_svg_document\<close> is declared in
  \<open>d2d1_private.h\<close>, which is not among the sources.  The spec's DocumentResource has a
  reference count, the native handle, the viewport size and the owning factory;
  \<open>svg.c\<close> uses exactly these fields, and the interface, which is the first member:
  \<open>impl_from_ID2D1Resource\<close>, declared in the same header, takes the interface pointer
  to the object that contains it, so a document is addressed by its interface pointer.
  \<open>InterlockedIncrement\<close> and \<open>InterlockedDecrement\<close> work on a 32-bit \<open>LONG\<close> and
  wrap around.
\<close>

record d2d_svg_document =
  refcount :: "32 word"
  viewport_size :: "double \<times> double"
  rsvg_handle :: ptr
  factory :: ptr

text \<open>
  The state of the process: the static variables of the Unix side, the x87 unit and
  the \<open>MXCSR\<close> register of the calling thread, the documents on the process heap, and
  the trace.
\<close>

record state =
  libcairo :: ptr
  p_cairo_image_surface_create_for_data :: ptr
  p_cairo_create :: ptr
  p_cairo_destroy :: ptr
  p_cairo_surface_destroy :: ptr
  p_cairo_scale :: ptr
  librsvg_so :: ptr
  p_rsvg_handle_new_from_data :: ptr
  p_rsvg_handle_render_document :: ptr
  p_g_object_unref :: ptr
  p_g_error_free :: ptr
  fpu :: x87
  mxcsr :: "32 word"
  documents :: "ptr \<Rightarrow> d2d_svg_document option"
  trace :: "event list"

text \<open>The static initialisers: every handle and function pointer is \<open>NULL\<close>.\<close>

definition initial_state :: "x87 \<Rightarrow> state" where
  "initial_state f =
     \<lparr>libcairo = 0, p_cairo_image_surface_create_for_data = 0, p_cairo_create = 0,
      p_cairo_destroy = 0, p_cairo_surface_destroy = 0, p_cairo_scale = 0,
      librsvg_so = 0, p_rsvg_handle_new_from_data = 0, p_rsvg_handle_render_document = 0,
      p_g_object_unref = 0, p_g_error_free = 0,
      fpu = f, mxcsr = MXCSR_DEFAULT, documents = (\<lambda>a. None), trace = []\<rparr>"

text \<open>
  A call into native code: logged, and free to touch the x87 unit and \<open>MXCSR\<close>.
\<close>

definition native :: "native_env \<Rightarrow> event \<Rightarrow> state \<Rightarrow> state" where
  "native E e s =
     s\<lparr>fpu := fpu_effect E e (fpu s), mxcsr := mxcsr_effect E e (mxcsr s),
       trace := trace s @ [e]\<rparr>"

text \<open>A floating-point instruction of the code itself: its flags are added to \<open>MXCSR\<close>.\<close>

definition sse :: "native_env \<Rightarrow> fp_op \<Rightarrow> state \<Rightarrow> state" where
  "sse E op s = s\<lparr>mxcsr := mxcsr s OR sse_flags E op\<rparr>"

text \<open>The C expressions \<open>a <= b\<close>, \<open>a > b\<close> and \<open>a / b\<close> on doubles: value and state.\<close>

definition fp_le :: "native_env \<Rightarrow> double \<Rightarrow> double \<Rightarrow> state \<Rightarrow> bool \<times> state" where
  "fp_le E a b s = (dle a b, sse E (Compare a b) s)"

definition fp_gt :: "native_env \<Rightarrow> double \<Rightarrow> double \<Rightarrow> state \<Rightarrow> bool \<times> state" where
  "fp_gt E a b s = (dgt a b, sse E (Compare a b) s)"

definition fp_div :: "native_env \<Rightarrow> double \<Rightarrow> double \<Rightarrow> state \<Rightarrow> double \<times> state" where
  "fp_div E a b s = (ddiv (round_quotient E) a b, sse E (Divide a b) s)"

text \<open>A call through a function pointer: through \<open>NULL\<close> it is a fault (\<open>None\<close>).\<close>

definition call :: "native_env \<Rightarrow> ptr \<Rightarrow> event \<Rightarrow> state \<Rightarrow> state option" where
  "call E fp e s = (if fp = 0 then None else Some (native E e s))"

text \<open>A call of the Windows side (heap, stream, factory): logged.\<close>

definition host :: "event \<Rightarrow> state \<Rightarrow> state" where
  "host e s = s\<lparr>trace := trace s @ [e]\<rparr>"

text \<open>A function either returns a value or the process faults inside it.\<close>

datatype 'a outcome = Fault | Ret 'a

section \<open>Library loader\<close>

text \<open>
  \<open>dlopen\<close> and \<open>dlsym\<close>: the result and the state after the call.  In the loaders
  \<open>h\<close> is the handle just stored in the static variable, which the code reads back
  for every \<open>dlsym\<close> and for \<open>dlclose\<close>.  The debug output (\<open>TRACE\<close>, \<open>ERR\<close>) is
  left out.
\<close>

definition dlopen :: "native_env \<Rightarrow> string \<Rightarrow> state \<Rightarrow> ptr \<times> state" where
  "dlopen E name s = (dlopen_ret E name, native E (Dlopen name (dlopen_ret E name)) s)"

definition dlsym :: "native_env \<Rightarrow> ptr \<Rightarrow> string \<Rightarrow> state \<Rightarrow> ptr \<times> state" where
  "dlsym E h name s = (dlsym_ret E h name, native E (Dlsym h name (dlsym_ret E h name)) s)"

definition load_librsvg :: "native_env \<Rightarrow> state \<Rightarrow> bool \<times> state" where
  "load_librsvg E s =
     (if librsvg_so s \<noteq> 0 then (True, s)
      else
        let (h, s0) = dlopen E ''librsvg-2.so.2'' s;
            s1 = s0\<lparr>librsvg_so := h\<rparr>
        in if h = 0 then (False, s1)
        else
          let (p, s2) = dlsym E h ''rsvg_handle_new_from_data'' s1;
              s2 = s2\<lparr>p_rsvg_handle_new_from_data := p\<rparr>;
              (p, s3) = dlsym E h ''g_object_unref'' s2;
              s3 = s3\<lparr>p_g_object_unref := p\<rparr>;
              (p, s4) = dlsym E h ''g_error_free'' s3;
              s4 = s4\<lparr>p_g_error_free := p\<rparr>;
              (p, s5) = dlsym E h ''rsvg_handle_render_document'' s4;
              s5 = s5\<lparr>p_rsvg_handle_render_document := p\<rparr>
          in if p_rsvg_handle_new_from_data s5 = 0 \<or> p_g_object_unref s5 = 0
                \<or> p_g_error_free s5 = 0 \<or> p_rsvg_handle_render_document s5 = 0
             then (False, (native E (Dlclose h) s5)\<lparr>librsvg_so := 0\<rparr>)
             else (True, s5))"

definition load_cairo :: "native_env \<Rightarrow> state \<Rightarrow> bool \<times> state" where
  "load_cairo E s =
     (if libcairo s \<noteq> 0 then (True, s)
      else
        let (h, s0) = dlopen E ''libcairo.so.2'' s;
            s1 = s0\<lparr>libcairo := h\<rparr>
        in if h = 0 then (False, s1)
        else
          let (p, s2) = dlsym E h ''cairo_image_surface_create_for_data'' s1;
              s2 = s2\<lparr>p_cairo_image_surface_create_for_data := p\<rparr>;
              (p, s3) = dlsym E h ''cairo_create'' s2;
              s3 = s3\<lparr>p_cairo_create := p\<rparr>;
              (p, s4) = dlsym E h ''cairo_destroy'' s3;
              s4 = s4\<lparr>p_cairo_destroy := p\<rparr>;
              (p, s5) = dlsym E h ''cairo_surface_destroy'' s4;
              s5 = s5\<lparr>p_cairo_surface_destroy := p\<rparr>;
              (p, s6) = dlsym E h ''cairo_scale'' s5;
              s6 = s6\<lparr>p_cairo_scale := p\<rparr>
          in if p_cairo_image_surface_create_for_data s6 = 0 \<or> p_cairo_create s6 = 0
             then (False, (native E (Dlclose h) s6)\<lparr>libcairo := 0\<rparr>)
             else (True, s6))"

section \<open>Document handle manager\<close>

definition rsvg_create_handle ::
  "native_env \<Rightarrow> rsvg_create_params \<Rightarrow> state \<Rightarrow> NTSTATUS outcome \<times> rsvg_create_params \<times> state"
where
  "rsvg_create_handle E params s =
     (let params0 = params\<lparr>handle := 0\<rparr> in
      case load_librsvg E s of
        (False, s1) \<Rightarrow> (Ret STATUS_NOT_SUPPORTED, params0, s1)
      | (True, s1) \<Rightarrow>
          let (h, error) = new_from_data_ret E (data params0) (size params0) in
          (case call E (p_rsvg_handle_new_from_data s1)
                  (Rsvg_handle_new_from_data (data params0) (size params0) h error) s1 of
             None \<Rightarrow> (Fault, params0, s1)
           | Some s2 \<Rightarrow>
               let params1 = params0\<lparr>handle := h\<rparr>
               in if handle params1 = 0 then
                    (if error \<noteq> 0 then
                       (case call E (p_g_error_free s2) (G_error_free error) s2 of
                          None \<Rightarrow> (Fault, params1, s2)
                        | Some s3 \<Rightarrow> (Ret STATUS_UNSUCCESSFUL, params1, s3))
                     else (Ret STATUS_UNSUCCESSFUL, params1, s2))
                  else (Ret STATUS_SUCCESS, params1, s2)))"

definition rsvg_free_handle ::
  "native_env \<Rightarrow> rsvg_free_params \<Rightarrow> state \<Rightarrow> NTSTATUS outcome \<times> state"
where
  "rsvg_free_handle E params s =
     (if free_handle params \<noteq> 0 \<and> p_g_object_unref s \<noteq> 0 then
        (case call E (p_g_object_unref s) (G_object_unref (free_handle params)) s of
           None \<Rightarrow> (Fault, s)
         | Some s1 \<Rightarrow> (Ret STATUS_SUCCESS, s1))
      else (Ret STATUS_SUCCESS, s))"

section \<open>Rasterization pipeline\<close>

text \<open>
  The code from the label \<open>done\<close> to the end of \<open>rsvg_render\<close>: the context and the
  surface are destroyed when the local variables are not \<open>NULL\<close>, then \<open>fninit\<close>.
\<close>

definition render_done ::
  "native_env \<Rightarrow> NTSTATUS \<Rightarrow> ptr \<Rightarrow> ptr \<Rightarrow> state \<Rightarrow> NTSTATUS outcome \<times> state"
where
  "render_done E ret surface cr s =
     (case (if cr \<noteq> 0 then call E (p_cairo_destroy s) (Cairo_destroy cr) s else Some s) of
        None \<Rightarrow> (Fault, s)
      | Some s1 \<Rightarrow>
          (case (if surface \<noteq> 0
                 then call E (p_cairo_surface_destroy s1) (Cairo_surface_destroy surface) s1
                 else Some s1) of
             None \<Rightarrow> (Fault, s1)
           | Some s2 \<Rightarrow> (Ret ret, s2\<lparr>fpu := fninit\<rparr>)))"

text \<open>
  The two tests on doubles, evaluated left to right as \<open>&&\<close> and \<open>||\<close> do: the viewport
  test \<open>svg_width <= 0.01 && svg_height <= 0.01\<close> and the scale test
  \<open>scale_x <= 0.0 || scale_x > 1000.0 || scale_y <= 0.0 || scale_y > 1000.0\<close>.
\<close>

definition viewport_too_small ::
  "native_env \<Rightarrow> rsvg_render_params \<Rightarrow> state \<Rightarrow> bool \<times> state"
where
  "viewport_too_small E params s =
     (let (c, s1) = fp_le E (svg_width params) lit_0_01 s
      in if c then fp_le E (svg_height params) lit_0_01 s1 else (False, s1))"

definition scale_invalid ::
  "native_env \<Rightarrow> double \<Rightarrow> double \<Rightarrow> state \<Rightarrow> bool \<times> state"
where
  "scale_invalid E scale_x scale_y s =
     (let (c, s1) = fp_le E scale_x lit_0_0 s in
      if c then (True, s1)
      else
        let (c, s2) = fp_gt E scale_x lit_1000_0 s1 in
        if c then (True, s2)
        else
          let (c, s3) = fp_le E scale_y lit_0_0 s2 in
          if c then (True, s3) else fp_gt E scale_y lit_1000_0 s3)"

text \<open>
  \<open>rsvg_render\<close> from surface creation to the last drawing call (the libraries are
  loaded at this point); every \<open>goto done\<close> is a call of \<open>render_done\<close> with the local
  variables of that moment.  The \<open>UINT32\<close> width, height and stride are passed where
  the native function takes an \<open>int\<close>: the same 32 bits; their conversion to \<open>double\<close> is
  exact and raises no flag.
\<close>

definition render_draw ::
  "native_env \<Rightarrow> rsvg_render_params \<Rightarrow> state \<Rightarrow> NTSTATUS outcome \<times> state"
where
  "render_draw E params s =
     (let surface = surface_create_ret E (pixels params)
                      (width params) (height params) (stride params)
      in
      case call E (p_cairo_image_surface_create_for_data s)
             (Cairo_image_surface_create_for_data (pixels params) 0
                (width params) (height params) (stride params) surface) s of
        None \<Rightarrow> (Fault, s)
      | Some s1 \<Rightarrow>
          if surface = 0 then render_done E STATUS_UNSUCCESSFUL surface 0 s1
          else
            let cr = cairo_create_ret E surface in
            (case call E (p_cairo_create s1) (Cairo_create surface cr) s1 of
               None \<Rightarrow> (Fault, s1)
             | Some s2 \<Rightarrow>
                 if cr = 0 then
                   (case call E (p_cairo_surface_destroy s2) (Cairo_surface_destroy surface) s2 of
                      None \<Rightarrow> (Fault, s2)
                    | Some s3 \<Rightarrow> render_done E STATUS_UNSUCCESSFUL surface cr s3)
                 else
                   let (scale_x, s3) = fp_div E (double_of_uint32 (width params))
                                         (svg_width params) s2;
                       (scale_y, s4) = fp_div E (double_of_uint32 (height params))
                                         (svg_height params) s3
                   in
                   (case scale_invalid E scale_x scale_y s4 of
                      (True, s5) \<Rightarrow> render_done E STATUS_INVALID_PARAMETER surface cr s5
                    | (False, s5) \<Rightarrow>
                        (case call E (p_cairo_scale s5) (Cairo_scale cr scale_x scale_y) s5 of
                           None \<Rightarrow> (Fault, s5)
                         | Some s6 \<Rightarrow>
                             let viewport = \<lparr>rect_x = Fin 0, rect_y = Fin 0,
                                              rect_width = svg_width params,
                                              rect_height = svg_height params\<rparr>
                             in (case call E (p_rsvg_handle_render_document s6)
                                        (Rsvg_handle_render_document
                                           (render_handle params) cr viewport) s6 of
                                   None \<Rightarrow> (Fault, s6)
                                 | Some s7 \<Rightarrow>
                                     render_done E STATUS_SUCCESS surface cr s7)))))"

text \<open>\<open>rsvg_render\<close>: the parameter gates and the library loads, then the drawing.\<close>

definition rsvg_render ::
  "native_env \<Rightarrow> rsvg_render_params \<Rightarrow> state \<Rightarrow> NTSTATUS outcome \<times> state"
where
  "rsvg_render E params s =
     (if render_handle params = 0 \<or> pixels params = 0
      then render_done E STATUS_INVALID_PARAMETER 0 0 s
      else
        (case viewport_too_small E params s of
           (True, s0) \<Rightarrow> render_done E STATUS_INVALID_PARAMETER 0 0 s0
         | (False, s0) \<Rightarrow>
             if width params = 0 \<or> height params = 0 \<or> stride params = 0
             then render_done E STATUS_INVALID_PARAMETER 0 0 s0
             else
               (case load_librsvg E s0 of
                  (False, s1) \<Rightarrow> render_done E STATUS_NOT_SUPPORTED 0 0 s1
                | (True, s1) \<Rightarrow>
                    (case load_cairo E s1 of
                       (False, s2) \<Rightarrow> render_done E STATUS_NOT_SUPPORTED 0 0 s2
                     | (True, s2) \<Rightarrow>
                         if p_rsvg_handle_render_document s2 = 0
                         then render_done E STATUS_NOT_SUPPORTED 0 0 s2
                         else render_draw E params s2))))"

section \<open>Resource wrapper (svg.c)\<close>

text \<open>
  What the Windows side is given: the handle of the Unix library (\<open>0\<close> when the
  library is not available), the results of \<open>IStream_Stat\<close> and \<open>IStream_Read\<close>
  (\<open>None\<close> when they fail; otherwise the stream's size and the bytes read), and the
  blocks \<open>HeapAlloc\<close> returns for the buffer and for the object.
\<close>

record host_env =
  unixlib_handle :: nat
  stat_ret :: "nat option"
  buffer_alloc_ret :: ptr
  read_ret :: "8 word list option"
  object_alloc_ret :: ptr

text \<open>
  A document is addressed by its interface pointer; \<open>set_document\<close> writes the
  object at an address (\<open>None\<close>: the block is freed).  A call on an address that holds
  no document (never created, or freed) is a fault.  \<open>UNIX_CALL\<close> goes through the table
  \<open>__wine_unix_call_funcs\<close>, whose entries are the three handlers above: a call with
  the index \<open>unix_rsvg_free_handle\<close> is a call of \<open>rsvg_free_handle\<close>.
\<close>

definition set_document :: "ptr \<Rightarrow> d2d_svg_document option \<Rightarrow> state \<Rightarrow> state" where
  "set_document a d s = s\<lparr>documents := (\<lambda>x. if x = a then d else documents s x)\<rparr>"

definition d2d_svg_document_AddRef :: "ptr \<Rightarrow> state \<Rightarrow> 32 word outcome \<times> state" where
  "d2d_svg_document_AddRef iface s =
     (case documents s iface of
        None \<Rightarrow> (Fault, s)
      | Some document \<Rightarrow>
          let refcount' = refcount document + 1
          in (Ret refcount', set_document iface (Some (document\<lparr>refcount := refcount'\<rparr>)) s))"

definition d2d_svg_document_Release ::
  "host_env \<Rightarrow> native_env \<Rightarrow> ptr \<Rightarrow> state \<Rightarrow> 32 word outcome \<times> state"
where
  "d2d_svg_document_Release H E iface s =
     (case documents s iface of
        None \<Rightarrow> (Fault, s)
      | Some document \<Rightarrow>
          let refcount' = refcount document - 1;
              s1 = set_document iface (Some (document\<lparr>refcount := refcount'\<rparr>)) s
          in if refcount' = 0 then
               (case (if rsvg_handle document \<noteq> 0 \<and> unixlib_handle H \<noteq> 0
                      then rsvg_free_handle E \<lparr>free_handle = rsvg_handle document\<rparr> s1
                      else (Ret STATUS_SUCCESS, s1)) of
                  (Fault, s2) \<Rightarrow> (Fault, s2)
                | (Ret status, s2) \<Rightarrow>
                    let s3 = (if factory document \<noteq> 0
                              then host (ID2D1Factory_Release (factory document)) s2 else s2);
                        s4 = set_document iface None (host (HeapFree iface) s3)
                    in (Ret refcount', s4))
             else (Ret refcount', s1))"

text \<open>
  \<open>d2d_svg_document_create\<close>; \<open>context_factory\<close> is \<open>context->factory\<close>.  The second
  component of the result is what was stored through the out parameter \<open>document\<close>,
  \<open>None\<close> when nothing was stored.
\<close>

definition d2d_svg_document_create ::
  "host_env \<Rightarrow> native_env \<Rightarrow> ptr \<Rightarrow> double \<times> double \<Rightarrow> state
     \<Rightarrow> HRESULT outcome \<times> ptr option \<times> state"
where
  "d2d_svg_document_create H E context_factory viewport s =
     (if unixlib_handle H = 0 then (Ret E_NOTIMPL, None, s)
      else
        let s1 = host IStream_Stat s in
        case stat_ret H of
          None \<Rightarrow> (Ret E_FAIL, None, s1)
        | Some cbSize \<Rightarrow>
            let buffer = buffer_alloc_ret H;
                s2 = host (HeapAlloc cbSize buffer) s1
            in if buffer = 0 then (Ret E_OUTOFMEMORY, None, s2)
            else
              let s3 = host IStream_Read s2 in
              case read_ret H of
                None \<Rightarrow> (Ret E_FAIL, None, host (HeapFree buffer) s3)
              | Some bytes \<Rightarrow>
                  let params = \<lparr>data = bytes, size = of_nat (length bytes), handle = 0\<rparr> in
                  (case rsvg_create_handle E params s3 of
                     (Fault, params', s4) \<Rightarrow> (Fault, None, s4)
                   | (Ret status, params', s4) \<Rightarrow>
                       let s5 = host (HeapFree buffer) s4
                       in if status \<noteq> 0 then (Ret E_FAIL, None, s5)
                       else
                         let object = object_alloc_ret H;
                             s6 = host (HeapAllocZero object) s5
                         in if object = 0 then
                              (case rsvg_free_handle E \<lparr>free_handle = handle params'\<rparr> s6 of
                                 (Fault, s7) \<Rightarrow> (Fault, None, s7)
                               | (Ret st, s7) \<Rightarrow> (Ret E_OUTOFMEMORY, None, s7))
                            else
                              let s7 = set_document object (Some
                                          \<lparr>refcount = 1, viewport_size = viewport,
                                           rsvg_handle = handle params',
                                           factory = context_factory\<rparr>) s6
                              in if context_factory = 0 then (Fault, None, s7)
                                 else (Ret S_OK, Some object,
                                       host (ID2D1Factory_AddRef context_factory) s7)))"

section \<open>Resources held along a trace\<close>

datatype resource =
    Library ptr
  | Parsed ptr
  | GError ptr
  | Surface ptr
  | Context ptr
  | Block ptr
  | FactoryRef ptr

text \<open>
  What a call hands to its caller (a \<open>NULL\<close> result is nothing).  The parser hands
  over a handle or, when it returns no handle, the error object it may have set.
\<close>

fun acquired :: "event \<Rightarrow> resource list" where
  "acquired (Dlopen name h) = (if h = 0 then [] else [Library h])"
| "acquired (Rsvg_handle_new_from_data d n h err) =
     (if h \<noteq> 0 then [Parsed h] else if err \<noteq> 0 then [GError err] else [])"
| "acquired (Cairo_image_surface_create_for_data px f w h st r) =
     (if r = 0 then [] else [Surface r])"
| "acquired (Cairo_create sf r) = (if r = 0 then [] else [Context r])"
| "acquired (HeapAlloc n r) = (if r = 0 then [] else [Block r])"
| "acquired (HeapAllocZero r) = (if r = 0 then [] else [Block r])"
| "acquired (ID2D1Factory_AddRef f) = [FactoryRef f]"
| "acquired e = []"

text \<open>What a call gives back.\<close>

fun released :: "event \<Rightarrow> resource list" where
  "released (Dlclose h) = [Library h]"
| "released (G_error_free err) = [GError err]"
| "released (G_object_unref h) = [Parsed h]"
| "released (Cairo_destroy cr) = [Context cr]"
| "released (Cairo_surface_destroy sf) = [Surface sf]"
| "released (HeapFree p) = [Block p]"
| "released (ID2D1Factory_Release f) = [FactoryRef f]"
| "released e = []"

text \<open>
  The resources of the kind \<open>P\<close> still held after a trace that started with \<open>M\<close>
  held.
\<close>

fun held :: "(resource \<Rightarrow> bool) \<Rightarrow> resource multiset \<Rightarrow> event list \<Rightarrow> resource multiset" where
  "held P M [] = M"
| "held P M (e # es) =
     held P (M + filter_mset P (mset (acquired e)) - filter_mset P (mset (released e))) es"

text \<open>The events a function added to the trace.\<close>

definition new_events :: "state \<Rightarrow> state \<Rightarrow> event list" where
  "new_events s s' = drop (length (trace s)) (trace s')"

text \<open>
  The resources other than library handles (a loaded library stays loaded) that a trace
  leaves behind.
\<close>

fun is_library :: "resource \<Rightarrow> bool" where
  "is_library (Library h) = True"
| "is_library r = False"

definition leaked :: "event list \<Rightarrow> resource multiset" where
  "leaked es = held (\<lambda>r. \<not> is_library r) {#} es"

section \<open>Conditions on states, environments and requests\<close>

text \<open>All five function pointers of the rasterizer are bound.\<close>

definition cairo_bound :: "state \<Rightarrow> bool" where
  "cairo_bound s =
     (p_cairo_image_surface_create_for_data s \<noteq> 0 \<and> p_cairo_create s \<noteq> 0
      \<and> p_cairo_destroy s \<noteq> 0 \<and> p_cairo_surface_destroy s \<noteq> 0
      \<and> p_cairo_scale s \<noteq> 0)"


text \<open>Both libraries are loaded and every pointer \<open>rsvg_render\<close> uses is bound.\<close>

definition libs_ready :: "state \<Rightarrow> bool" where
  "libs_ready s =
     (librsvg_so s \<noteq> 0 \<and> p_rsvg_handle_render_document s \<noteq> 0
      \<and> libcairo s \<noteq> 0 \<and> cairo_bound s)"

text \<open>The parser library, when loaded, has its four pointers bound.\<close>

definition librsvg_bound :: "state \<Rightarrow> bool" where
  "librsvg_bound s =
     (if librsvg_so s = 0 then True
      else p_rsvg_handle_new_from_data s \<noteq> 0 \<and> p_g_object_unref s \<noteq> 0
         \<and> p_g_error_free s \<noteq> 0 \<and> p_rsvg_handle_render_document s \<noteq> 0)"

text \<open>The environment has the library, with every symbol the loader checks.\<close>

definition exports_librsvg :: "native_env \<Rightarrow> bool" where
  "exports_librsvg E =
     (dlopen_ret E ''librsvg-2.so.2'' \<noteq> 0
      \<and> dlsym_ret E (dlopen_ret E ''librsvg-2.so.2'') ''rsvg_handle_new_from_data'' \<noteq> 0
      \<and> dlsym_ret E (dlopen_ret E ''librsvg-2.so.2'') ''g_object_unref'' \<noteq> 0
      \<and> dlsym_ret E (dlopen_ret E ''librsvg-2.so.2'') ''g_error_free'' \<noteq> 0
      \<and> dlsym_ret E (dlopen_ret E ''librsvg-2.so.2'') ''rsvg_handle_render_document'' \<noteq> 0)"

definition exports_cairo :: "native_env \<Rightarrow> bool" where
  "exports_cairo E =
     (dlopen_ret E ''libcairo.so.2'' \<noteq> 0
      \<and> dlsym_ret E (dlopen_ret E ''libcairo.so.2'')
            ''cairo_image_surface_create_for_data'' \<noteq> 0
      \<and> dlsym_ret E (dlopen_ret E ''libcairo.so.2'') ''cairo_create'' \<noteq> 0)"

text \<open>The scale factors \<open>rsvg_render\<close> computes, and its test on them.\<close>

definition request_scale_x :: "native_env \<Rightarrow> rsvg_render_params \<Rightarrow> double" where
  "request_scale_x E params =
     ddiv (round_quotient E) (double_of_uint32 (width params)) (svg_width params)"

definition request_scale_y :: "native_env \<Rightarrow> rsvg_render_params \<Rightarrow> double" where
  "request_scale_y E params =
     ddiv (round_quotient E) (double_of_uint32 (height params)) (svg_height params)"

definition scale_out_of_range :: "native_env \<Rightarrow> rsvg_render_params \<Rightarrow> bool" where
  "scale_out_of_range E params =
     (dle (request_scale_x E params) lit_0_0 \<or> dgt (request_scale_x E params) lit_1000_0
      \<or> dle (request_scale_y E params) lit_0_0 \<or> dgt (request_scale_y E params) lit_1000_0)"

text \<open>
  The flags the viewport test raises altogether, and those of the two divisions
  followed by the scale test.
\<close>

definition viewport_flags :: "native_env \<Rightarrow> rsvg_render_params \<Rightarrow> 32 word" where
  "viewport_flags E params =
     sse_flags E (Compare (svg_width params) lit_0_01)
     OR (if dle (svg_width params) lit_0_01
         then sse_flags E (Compare (svg_height params) lit_0_01) else 0)"

definition scale_flags :: "native_env \<Rightarrow> rsvg_render_params \<Rightarrow> 32 word" where
  "scale_flags E params =
     sse_flags E (Divide (double_of_uint32 (width params)) (svg_width params))
     OR sse_flags E (Divide (double_of_uint32 (height params)) (svg_height params))
     OR sse_flags E (Compare (request_scale_x E params) lit_0_0)
     OR (if dle (request_scale_x E params) lit_0_0 then 0
         else sse_flags E (Compare (request_scale_x E params) lit_1000_0)
           OR (if dgt (request_scale_x E params) lit_1000_0 then 0
               else sse_flags E (Compare (request_scale_y E params) lit_0_0)
                 OR (if dle (request_scale_y E params) lit_0_0 then 0
                     else sse_flags E (Compare (request_scale_y E params) lit_1000_0))))"


definition flags_kept :: "state \<Rightarrow> state \<Rightarrow> bool" where
  "flags_kept s s' = (\<forall>n. bit (mxcsr s) n \<longrightarrow> bit (mxcsr s') n)"

text \<open>
  The first three gates of \<open>rsvg_render\<close> let the request through, and the surface and
  the context that the environment returns for it.
\<close>

definition passes_parameter_gates :: "rsvg_render_params \<Rightarrow> bool" where
  "passes_parameter_gates params =
     (render_handle params \<noteq> 0 \<and> pixels params \<noteq> 0
      \<and> \<not> (dle (svg_width params) lit_0_01 \<and> dle (svg_height params) lit_0_01)
      \<and> width params \<noteq> 0 \<and> height params \<noteq> 0 \<and> stride params \<noteq> 0)"

definition created_surface :: "native_env \<Rightarrow> rsvg_render_params \<Rightarrow> ptr" where
  "created_surface E params =
     surface_create_ret E (pixels params) (width params) (height params) (stride params)"

definition created_context :: "native_env \<Rightarrow> rsvg_render_params \<Rightarrow> ptr" where
  "created_context E params = cairo_create_ret E (created_surface E params)"

definition creation_succeeds :: "native_env \<Rightarrow> rsvg_render_params \<Rightarrow> bool" where
  "creation_succeeds E params =
     (created_surface E params \<noteq> 0 \<and> created_context E params \<noteq> 0)"

text \<open>The calls that draw: scaling the context and rendering the document.\<close>

fun drawing_call :: "event \<Rightarrow> bool" where
  "drawing_call (Cairo_scale cr x y) = True"
| "drawing_call (Rsvg_handle_render_document h cr vp) = True"
| "drawing_call e = False"

text \<open>From \<open>s\<close> to \<open>s'\<close> the trace grew, by calls that do not draw.\<close>

definition no_drawing :: "state \<Rightarrow> state \<Rightarrow> bool" where
  "no_drawing s s' = (\<exists>es. trace s' = trace s @ es \<and> \<not> list_ex drawing_call es)"

text \<open>The same call \<open>n\<close> times in a row; \<open>None\<close> when one of them faults.\<close>

fun repeated :: "nat \<Rightarrow> (state \<Rightarrow> 32 word outcome \<times> state) \<Rightarrow> state \<Rightarrow> state option" where
  "repeated 0 f s = Some s"
| "repeated (Suc n) f s =
     (case f s of (Fault, s') \<Rightarrow> None | (Ret r, s') \<Rightarrow> repeated n f s')"

text \<open>
  The calls \<open>d2d_svg_document_Release\<close> makes when the count reaches zero: the native
  handle is freed through the Unix side, the factory reference is released, the object's
  memory is freed.
\<close>

definition teardown :: "host_env \<Rightarrow> state \<Rightarrow> ptr \<Rightarrow> d2d_svg_document \<Rightarrow> event list" where
  "teardown H s iface document =
     (if rsvg_handle document \<noteq> 0 \<and> unixlib_handle H \<noteq> 0 \<and> p_g_object_unref s \<noteq> 0
      then [G_object_unref (rsvg_handle document)] else [])
     @ (if factory document \<noteq> 0 then [ID2D1Factory_Release (factory document)] else [])
     @ [HeapFree iface]"

section \<open>A concrete environment\<close>

text \<open>
  Both libraries are present and export every symbol; the parser rejects an empty buffer
  with an error object and accepts anything else; a native call leaves the precision
  flag set in the x87 status word and does not touch \<open>MXCSR\<close>; quotients are exact and
  the instructions raise the flags of \<open>ieee_flags\<close>.
\<close>

definition example_env :: native_env where
  "example_env =
     \<lparr>dlopen_ret = (\<lambda>name. if name = ''librsvg-2.so.2'' then 100
                          else if name = ''libcairo.so.2'' then 200 else 0),
      dlsym_ret = (\<lambda>h name. h + length name),
      new_from_data_ret = (\<lambda>d n. if n = 0 then (0, 7) else (500, 0)),
      surface_create_ret = (\<lambda>px w h st. 600),
      cairo_create_ret = (\<lambda>sf. 700),
      fpu_effect = (\<lambda>e f. f\<lparr>status_word := 0x20\<rparr>),
      mxcsr_effect = (\<lambda>e m. m),
      round_quotient = Fin,
      sse_flags = ieee_flags\<rparr>"

text \<open>The state once both libraries are loaded from \<open>example_env\<close>.\<close>

definition loaded_state :: state where
  "loaded_state =
     \<lparr>libcairo = 200, p_cairo_image_surface_create_for_data = 235, p_cairo_create = 212,
      p_cairo_destroy = 213, p_cairo_surface_destroy = 221, p_cairo_scale = 211,
      librsvg_so = 100, p_rsvg_handle_new_from_data = 125, p_rsvg_handle_render_document = 127,
      p_g_object_unref = 114, p_g_error_free = 112,
      fpu = fninit, mxcsr = MXCSR_DEFAULT, documents = (\<lambda>a. None), trace = []\<rparr>"

text \<open>A 50 by 50 target with a stride of 200 bytes, for a viewport of 100 by 100.\<close>

definition example_request :: rsvg_render_params where
  "example_request =
     \<lparr>render_handle = 500, pixels = 900, svg_width = Fin 100, svg_height = Fin 100,
      width = 50, height = 50, stride = 200, padding = 0\<rparr>"

definition example_host :: host_env where
  "example_host =
     \<lparr>unixlib_handle = 1, stat_ret = Some 100, buffer_alloc_ret = 800,
      read_ret = Some (replicate 100 60), object_alloc_ret = 900\<rparr>"

definition example_document :: d2d_svg_document where
  "example_document =
     \<lparr>refcount = 1, viewport_size = (Fin 100, Fin 100), rsvg_handle = 500, factory = 40\<rparr>"

text \<open>The rasterizer library lacks the symbol \<open>cairo_scale\<close>.\<close>

definition example_env_no_scale :: native_env where
  "example_env_no_scale =
     example_env\<lparr>dlsym_ret := (\<lambda>h name. if name = ''cairo_scale'' then 0 else h + length name)\<rparr>"

text \<open>Context creation fails: \<open>cairo_create\<close> returns \<open>NULL\<close>.\<close>

definition example_env_no_context :: native_env where
  "example_env_no_context = example_env\<lparr>cairo_create_ret := (\<lambda>sf. 0)\<rparr>"

text \<open>A viewport 1/256 wide and 64 high, for a target of 1 by 64 pixels.\<close>

definition thin_request :: rsvg_render_params where
  "thin_request =
     \<lparr>render_handle = 500, pixels = 900, svg_width = Fin (1 / 256), svg_height = Fin 64,
      width = 1, height = 64, stride = 4, padding = 0\<rparr>"

text \<open>A viewport 1/64 wide for a target 50 pixels wide: a scale of 3200.\<close>

definition tiny_viewport_request :: rsvg_render_params where
  "tiny_viewport_request =
     \<lparr>render_handle = 500, pixels = 900, svg_width = Fin (1 / 64), svg_height = Fin 100,
      width = 50, height = 50, stride = 200, padding = 0\<rparr>"

text \<open>A viewport of width 0.0: the horizontal scale is \<open>50 / 0\<close>.\<close>

definition zero_width_request :: rsvg_render_params where
  "zero_width_request =
     \<lparr>render_handle = 500, pixels = 900, svg_width = Fin 0, svg_height = Fin 100,
      width = 50, height = 50, stride = 200, padding = 0\<rparr>"

section \<open>Basic facts\<close>

lemmas example_defs =
  example_env_def loaded_state_def example_request_def example_host_def example_document_def
  example_env_no_scale_def example_env_no_context_def thin_request_def
  tiny_viewport_request_def zero_width_request_def

lemmas status_defs =
  STATUS_SUCCESS_def STATUS_UNSUCCESSFUL_def STATUS_INVALID_PARAMETER_def
  STATUS_NOT_SUPPORTED_def S_OK_def E_NOTIMPL_def E_FAIL_def E_OUTOFMEMORY_def

lemmas double_defs =
  ddiv_def double_of_uint32_def lit_0_01_def lit_0_0_def lit_1000_0_def
  signed_inf_def signed_zero_def


lemmas render_defs =
  rsvg_render_def render_draw_def render_done_def load_librsvg_def load_cairo_def
  dlopen_def dlsym_def call_def Let_def
  viewport_too_small_def scale_invalid_def fp_le_def fp_gt_def fp_div_def sse_def

lemma native_fields [simp]:
  "libcairo (native E e s) = libcairo s"
  "p_cairo_image_surface_create_for_data (native E e s) = p_cairo_image_surface_create_for_data s"
  "p_cairo_create (native E e s) = p_cairo_create s"
  "p_cairo_destroy (native E e s) = p_cairo_destroy s"
  "p_cairo_surface_destroy (native E e s) = p_cairo_surface_destroy s"
  "p_cairo_scale (native E e s) = p_cairo_scale s"
  "librsvg_so (native E e s) = librsvg_so s"
  "p_rsvg_handle_new_from_data (native E e s) = p_rsvg_handle_new_from_data s"
  "p_rsvg_handle_render_document (native E e s) = p_rsvg_handle_render_document s"
  "p_g_object_unref (native E e s) = p_g_object_unref s"
  "p_g_error_free (native E e s) = p_g_error_free s"
  "documents (native E e s) = documents s"
  "trace (native E e s) = trace s @ [e]"
  "fpu (native E e s) = fpu_effect E e (fpu s)"
  "mxcsr (native E e s) = mxcsr_effect E e (mxcsr s)"
  by (simp_all add: native_def)

lemma host_fields [simp]:
  "libcairo (host e s) = libcairo s"
  "p_cairo_image_surface_create_for_data (host e s) = p_cairo_image_surface_create_for_data s"
  "p_cairo_create (host e s) = p_cairo_create s"
  "p_cairo_destroy (host e s) = p_cairo_destroy s"
  "p_cairo_surface_destroy (host e s) = p_cairo_surface_destroy s"
  "p_cairo_scale (host e s) = p_cairo_scale s"
  "librsvg_so (host e s) = librsvg_so s"
  "p_rsvg_handle_new_from_data (host e s) = p_rsvg_handle_new_from_data s"
  "p_rsvg_handle_render_document (host e s) = p_rsvg_handle_render_document s"
  "p_g_object_unref (host e s) = p_g_object_unref s"
  "p_g_error_free (host e s) = p_g_error_free s"
  "documents (host e s) = documents s"
  "trace (host e s) = trace s @ [e]"
  "fpu (host e s) = fpu s"
  "mxcsr (host e s) = mxcsr s"
  by (simp_all add: host_def)

lemma set_document_fields [simp]:
  "libcairo (set_document a d s) = libcairo s"
  "p_cairo_image_surface_create_for_data (set_document a d s) = p_cairo_image_surface_create_for_data s"
  "p_cairo_create (set_document a d s) = p_cairo_create s"
  "p_cairo_destroy (set_document a d s) = p_cairo_destroy s"
  "p_cairo_surface_destroy (set_document a d s) = p_cairo_surface_destroy s"
  "p_cairo_scale (set_document a d s) = p_cairo_scale s"
  "librsvg_so (set_document a d s) = librsvg_so s"
  "p_rsvg_handle_new_from_data (set_document a d s) = p_rsvg_handle_new_from_data s"
  "p_rsvg_handle_render_document (set_document a d s) = p_rsvg_handle_render_document s"
  "p_g_object_unref (set_document a d s) = p_g_object_unref s"
  "p_g_error_free (set_document a d s) = p_g_error_free s"
  "documents (set_document a d s) a = d"
  "trace (set_document a d s) = trace s"
  "fpu (set_document a d s) = fpu s"
  "mxcsr (set_document a d s) = mxcsr s"
  by (simp_all add: set_document_def)


lemma new_events_append [simp]: "trace s' = trace s @ es \<Longrightarrow> new_events s s' = es"
  by (simp add: new_events_def)

lemma new_events_same [simp]: "new_events s s = []"
  by (simp add: new_events_def)

subsection \<open>The floating-point tests\<close>

lemma viewport_too_small_eq:
  "viewport_too_small E p s =
     (dle (svg_width p) lit_0_01 \<and> dle (svg_height p) lit_0_01,
      s\<lparr>mxcsr := mxcsr s OR viewport_flags E p\<rparr>)"
  by (simp add: viewport_too_small_def viewport_flags_def fp_le_def sse_def or.assoc)

lemma scale_invalid_eq:
  "scale_invalid E (request_scale_x E p) (request_scale_y E p)
     (sse E (Divide (double_of_uint32 (height p)) (svg_height p))
        (sse E (Divide (double_of_uint32 (width p)) (svg_width p)) s)) =
     (scale_out_of_range E p, s\<lparr>mxcsr := mxcsr s OR scale_flags E p\<rparr>)"
  by (simp add: scale_invalid_def scale_flags_def scale_out_of_range_def fp_le_def fp_gt_def
      sse_def or.assoc)

subsection \<open>The code after the label done, and the drawing\<close>


lemma render_done_nothing: "render_done E ret 0 0 s = (Ret ret, s\<lparr>fpu := fninit\<rparr>)"
  by (simp add: render_done_def)

text \<open>\<open>render_draw\<close> and \<open>rsvg_render\<close> with the two tests evaluated.\<close>

lemma render_draw_unfold:
  "render_draw E p s =
     (case call E (p_cairo_image_surface_create_for_data s)
             (Cairo_image_surface_create_for_data (pixels p) 0
                (width p) (height p) (stride p) (created_surface E p)) s of
        None \<Rightarrow> (Fault, s)
      | Some s1 \<Rightarrow>
          if created_surface E p = 0
          then render_done E STATUS_UNSUCCESSFUL (created_surface E p) 0 s1
          else
            (case call E (p_cairo_create s1)
                    (Cairo_create (created_surface E p) (created_context E p)) s1 of
               None \<Rightarrow> (Fault, s1)
             | Some s2 \<Rightarrow>
                 if created_context E p = 0 then
                   (case call E (p_cairo_surface_destroy s2)
                           (Cairo_surface_destroy (created_surface E p)) s2 of
                      None \<Rightarrow> (Fault, s2)
                    | Some s3 \<Rightarrow>
                        render_done E STATUS_UNSUCCESSFUL (created_surface E p)
                          (created_context E p) s3)
                 else if scale_out_of_range E p then
                   render_done E STATUS_INVALID_PARAMETER (created_surface E p)
                     (created_context E p) (s2\<lparr>mxcsr := mxcsr s2 OR scale_flags E p\<rparr>)
                 else
                   (case call E (p_cairo_scale s2)
                           (Cairo_scale (created_context E p)
                              (request_scale_x E p) (request_scale_y E p))
                           (s2\<lparr>mxcsr := mxcsr s2 OR scale_flags E p\<rparr>) of
                      None \<Rightarrow> (Fault, s2\<lparr>mxcsr := mxcsr s2 OR scale_flags E p\<rparr>)
                    | Some s6 \<Rightarrow>
                        (case call E (p_rsvg_handle_render_document s6)
                                (Rsvg_handle_render_document (render_handle p)
                                   (created_context E p)
                                   \<lparr>rect_x = Fin 0, rect_y = Fin 0,
                                    rect_width = svg_width p,
                                    rect_height = svg_height p\<rparr>) s6 of
                           None \<Rightarrow> (Fault, s6)
                         | Some s7 \<Rightarrow>
                             render_done E STATUS_SUCCESS (created_surface E p)
                               (created_context E p) s7))))"
proof -
  have test: "scale_invalid E (request_scale_x E p) (request_scale_y E p)
     (sse E (Divide (double_of_uint32 (height p)) (svg_height p))
        (sse E (Divide (double_of_uint32 (width p)) (svg_width p)) t)) =
     (scale_out_of_range E p, t\<lparr>mxcsr := mxcsr t OR scale_flags E p\<rparr>)" for t
    by (rule scale_invalid_eq)
  show ?thesis
    unfolding render_draw_def created_surface_def [symmetric] Let_def
      created_context_def [symmetric] fp_div_def prod.case
      request_scale_x_def [symmetric] request_scale_y_def [symmetric] test
    by (simp add: sse_def split: option.splits)
qed

lemma rsvg_render_unfold:
  "rsvg_render E p s =
     (if render_handle p = 0 \<or> pixels p = 0
      then (Ret STATUS_INVALID_PARAMETER, s\<lparr>fpu := fninit\<rparr>)
      else if \<not> passes_parameter_gates p
      then (Ret STATUS_INVALID_PARAMETER,
            s\<lparr>fpu := fninit, mxcsr := mxcsr s OR viewport_flags E p\<rparr>)
      else
        (case load_librsvg E (s\<lparr>mxcsr := mxcsr s OR viewport_flags E p\<rparr>) of
           (False, s1) \<Rightarrow> render_done E STATUS_NOT_SUPPORTED 0 0 s1
         | (True, s1) \<Rightarrow>
             (case load_cairo E s1 of
                (False, s2) \<Rightarrow> render_done E STATUS_NOT_SUPPORTED 0 0 s2
              | (True, s2) \<Rightarrow>
                  if p_rsvg_handle_render_document s2 = 0
                  then render_done E STATUS_NOT_SUPPORTED 0 0 s2
                  else render_draw E p s2)))"
  by (auto simp: rsvg_render_def viewport_too_small_eq passes_parameter_gates_def
      render_done_nothing split: bool.splits)



lemma render_done_safe:
  "p_cairo_destroy s \<noteq> 0 \<Longrightarrow> p_cairo_surface_destroy s \<noteq> 0 \<Longrightarrow>
     \<exists>s'. render_done E ret sf cr s = (Ret ret, s')"
  by (simp add: render_done_def call_def)





section \<open>Rasterization pipeline: the first gate and the x87 reset\<close>

text \<open>
  Claim C9.  When the document handle or the pixel buffer is \<open>NULL\<close>, \<open>rsvg_render\<close>
  returns \<open>STATUS_INVALID_PARAMETER\<close> whatever the other fields, the environment and
  the state are.  It is the first gate: nothing is loaded and nothing is called, the
  state is the one before the call but for the floating-point unit, which is reset.
\<close>

theorem rsvg_render_null_argument:
  "render_handle p = 0 \<or> pixels p = 0 \<Longrightarrow>
     rsvg_render E p s = (Ret STATUS_INVALID_PARAMETER, s\<lparr>fpu := fninit\<rparr>)"
  by (auto simp add: rsvg_render_def render_done_nothing)

theorem rsvg_render_null_argument_witness:
  "pixels (example_request\<lparr>pixels := 0\<rparr>) = 0
   \<and> rsvg_render example_env (example_request\<lparr>pixels := 0\<rparr>) (initial_state fninit)
       = (Ret STATUS_INVALID_PARAMETER, initial_state fninit)
   \<and> trace (initial_state fninit) = []"
proof -
  have null: "pixels (example_request\<lparr>pixels := 0\<rparr>) = 0"
    by simp
  have "rsvg_render example_env (example_request\<lparr>pixels := 0\<rparr>) (initial_state fninit)
          = (Ret STATUS_INVALID_PARAMETER, (initial_state fninit)\<lparr>fpu := fninit\<rparr>)"
    using null by (intro rsvg_render_null_argument) simp
  then show ?thesis
    by (simp add: initial_state_def)
qed

subsection \<open>Flags of MXCSR are never cleared\<close>

lemma flags_kept_refl [simp]: "flags_kept s s"
  by (simp add: flags_kept_def)

lemma flags_kept_fpu [simp]: "flags_kept s (t\<lparr>fpu := f\<rparr>) = flags_kept s t"
  by (simp add: flags_kept_def)












section \<open>Document handle manager: the free command\<close>

text \<open>
  Claim C10.  \<open>rsvg_free_handle\<close> returns \<open>STATUS_SUCCESS\<close> on every input.  With a
  \<open>NULL\<close> handle, or with the release symbol of the parser library not bound, it calls
  nothing and leaves the state as it was; otherwise its one call is \<open>g_object_unref\<close>
  on the handle.
\<close>

theorem rsvg_free_handle_succeeds:
  "fst (rsvg_free_handle E p s) = Ret STATUS_SUCCESS
   \<and> (free_handle p = 0 \<or> p_g_object_unref s = 0 \<longrightarrow> snd (rsvg_free_handle E p s) = s)
   \<and> (free_handle p \<noteq> 0 \<and> p_g_object_unref s \<noteq> 0 \<longrightarrow>
        new_events s (snd (rsvg_free_handle E p s)) = [G_object_unref (free_handle p)])"
  by (auto simp: rsvg_free_handle_def call_def)

theorem rsvg_free_handle_succeeds_witness:
  "p_g_object_unref (initial_state fninit) = 0
   \<and> rsvg_free_handle example_env \<lparr>free_handle = 500\<rparr> (initial_state fninit)
       = (Ret STATUS_SUCCESS, initial_state fninit)
   \<and> free_handle \<lparr>free_handle = 500\<rparr> \<noteq> 0 \<and> p_g_object_unref loaded_state \<noteq> 0
   \<and> new_events loaded_state (snd (rsvg_free_handle example_env \<lparr>free_handle = 500\<rparr> loaded_state))
       = [G_object_unref 500]"
proof -
  have unbound: "p_g_object_unref (initial_state fninit) = 0"
    by (simp add: initial_state_def)
  have bound: "p_g_object_unref loaded_state \<noteq> 0"
    by (simp add: loaded_state_def)
  from rsvg_free_handle_succeeds [of example_env "\<lparr>free_handle = 500\<rparr>" "initial_state fninit"]
    unbound
  have "rsvg_free_handle example_env \<lparr>free_handle = 500\<rparr> (initial_state fninit)
          = (Ret STATUS_SUCCESS, initial_state fninit)"
    by (metis prod.collapse)
  moreover from rsvg_free_handle_succeeds [of example_env "\<lparr>free_handle = 500\<rparr>" loaded_state]
    bound
  have "new_events loaded_state
          (snd (rsvg_free_handle example_env \<lparr>free_handle = 500\<rparr> loaded_state))
        = [G_object_unref 500]"
    by simp
  ultimately show ?thesis
    using unbound bound by simp
qed

section \<open>Library loader: idempotence, failure and retry\<close>

lemma load_librsvg_loaded: "librsvg_so s \<noteq> 0 \<Longrightarrow> load_librsvg E s = (True, s)"
  by (simp add: load_librsvg_def)

lemma load_cairo_loaded: "libcairo s \<noteq> 0 \<Longrightarrow> load_cairo E s = (True, s)"
  by (simp add: load_cairo_def)

lemma load_librsvg_failed:
  "\<not> fst (load_librsvg E s) \<Longrightarrow>
     librsvg_so (snd (load_librsvg E s)) = 0
     \<and> held is_library {#} (new_events s (snd (load_librsvg E s))) = {#}"
  by (simp add: load_librsvg_def dlopen_def dlsym_def Let_def new_events_def split: if_splits)

lemma load_cairo_failed:
  "\<not> fst (load_cairo E s) \<Longrightarrow>
     libcairo (snd (load_cairo E s)) = 0
     \<and> held is_library {#} (new_events s (snd (load_cairo E s))) = {#}"
  by (simp add: load_cairo_def dlopen_def dlsym_def Let_def new_events_def split: if_splits)

lemma load_librsvg_attempt:
  "librsvg_so s = 0 \<Longrightarrow>
     \<exists>es. new_events s (snd (load_librsvg E s))
            = Dlopen ''librsvg-2.so.2'' (dlopen_ret E ''librsvg-2.so.2'') # es"
  by (simp add: load_librsvg_def dlopen_def dlsym_def Let_def new_events_def)

lemma load_cairo_attempt:
  "libcairo s = 0 \<Longrightarrow>
     \<exists>es. new_events s (snd (load_cairo E s))
            = Dlopen ''libcairo.so.2'' (dlopen_ret E ''libcairo.so.2'') # es"
  by (simp add: load_cairo_def dlopen_def dlsym_def Let_def new_events_def)

lemma load_librsvg_exports:
  "librsvg_so s = 0 \<Longrightarrow> fst (load_librsvg E s) = exports_librsvg E"
  by (auto simp add: load_librsvg_def dlopen_def dlsym_def Let_def exports_librsvg_def)

lemma load_cairo_exports:
  "libcairo s = 0 \<Longrightarrow> fst (load_cairo E s) = exports_cairo E"
  by (auto simp add: load_cairo_def dlopen_def dlsym_def Let_def exports_cairo_def)

lemma load_librsvg_succeeded:
  "fst (load_librsvg E s) \<Longrightarrow>
     librsvg_so (snd (load_librsvg E s)) \<noteq> 0
     \<and> (librsvg_so s = 0 \<longrightarrow>
          librsvg_so (snd (load_librsvg E s)) = dlopen_ret E ''librsvg-2.so.2''
          \<and> held is_library {#} (new_events s (snd (load_librsvg E s)))
              = {#Library (dlopen_ret E ''librsvg-2.so.2'')#})"
  by (simp add: load_librsvg_def dlopen_def dlsym_def Let_def new_events_def split: if_splits)

lemma load_cairo_succeeded:
  "fst (load_cairo E s) \<Longrightarrow>
     libcairo (snd (load_cairo E s)) \<noteq> 0
     \<and> (libcairo s = 0 \<longrightarrow>
          libcairo (snd (load_cairo E s)) = dlopen_ret E ''libcairo.so.2''
          \<and> held is_library {#} (new_events s (snd (load_cairo E s)))
              = {#Library (dlopen_ret E ''libcairo.so.2'')#})"
  by (simp add: load_cairo_def dlopen_def dlsym_def Let_def new_events_def split: if_splits)

text \<open>
  Claim C7.  Both loaders: on a library that is loaded the call returns success and
  leaves the state as it is, so no symbol is resolved again.  When the call succeeds,
  the handle variable is not \<open>NULL\<close> afterwards (it holds the handle \<open>dlopen\<close> returned,
  which has not been closed), so the next call, in whatever environment \<open>E'\<close>, is that
  immediate success.  When the call fails, the handle variable is \<open>NULL\<close> afterwards and
  every library handle the call opened has been closed; the next call, in whatever
  environment \<open>E'\<close>, starts with \<open>dlopen\<close> again, and succeeds exactly when \<open>E'\<close> has the
  library with the symbols the loader checks.
\<close>

theorem load_idempotent_and_retried:
  "(librsvg_so s \<noteq> 0 \<longrightarrow> load_librsvg E s = (True, s))
   \<and> (\<not> fst (load_librsvg E s) \<longrightarrow>
        librsvg_so (snd (load_librsvg E s)) = 0
        \<and> held is_library {#} (new_events s (snd (load_librsvg E s))) = {#}
        \<and> (\<exists>es. new_events (snd (load_librsvg E s))
                   (snd (load_librsvg E' (snd (load_librsvg E s))))
                 = Dlopen ''librsvg-2.so.2'' (dlopen_ret E' ''librsvg-2.so.2'') # es)
        \<and> fst (load_librsvg E' (snd (load_librsvg E s))) = exports_librsvg E')
   \<and> (libcairo s \<noteq> 0 \<longrightarrow> load_cairo E s = (True, s))
   \<and> (\<not> fst (load_cairo E s) \<longrightarrow>
        libcairo (snd (load_cairo E s)) = 0
        \<and> held is_library {#} (new_events s (snd (load_cairo E s))) = {#}
        \<and> (\<exists>es. new_events (snd (load_cairo E s))
                   (snd (load_cairo E' (snd (load_cairo E s))))
                 = Dlopen ''libcairo.so.2'' (dlopen_ret E' ''libcairo.so.2'') # es)
        \<and> fst (load_cairo E' (snd (load_cairo E s))) = exports_cairo E')
   \<and> (fst (load_librsvg E s) \<longrightarrow>
        librsvg_so (snd (load_librsvg E s)) \<noteq> 0
        \<and> load_librsvg E' (snd (load_librsvg E s)) = (True, snd (load_librsvg E s))
        \<and> (librsvg_so s = 0 \<longrightarrow>
             librsvg_so (snd (load_librsvg E s)) = dlopen_ret E ''librsvg-2.so.2''
             \<and> held is_library {#} (new_events s (snd (load_librsvg E s)))
                 = {#Library (dlopen_ret E ''librsvg-2.so.2'')#}))
   \<and> (fst (load_cairo E s) \<longrightarrow>
        libcairo (snd (load_cairo E s)) \<noteq> 0
        \<and> load_cairo E' (snd (load_cairo E s)) = (True, snd (load_cairo E s))
        \<and> (libcairo s = 0 \<longrightarrow>
             libcairo (snd (load_cairo E s)) = dlopen_ret E ''libcairo.so.2''
             \<and> held is_library {#} (new_events s (snd (load_cairo E s)))
                 = {#Library (dlopen_ret E ''libcairo.so.2'')#}))"
proof -
  have rsvg: "librsvg_so (snd (load_librsvg E s)) = 0
      \<and> held is_library {#} (new_events s (snd (load_librsvg E s))) = {#}
      \<and> (\<exists>es. new_events (snd (load_librsvg E s))
                 (snd (load_librsvg E' (snd (load_librsvg E s))))
               = Dlopen ''librsvg-2.so.2'' (dlopen_ret E' ''librsvg-2.so.2'') # es)
      \<and> fst (load_librsvg E' (snd (load_librsvg E s))) = exports_librsvg E'"
    if "\<not> fst (load_librsvg E s)"
    using load_librsvg_failed [OF that] load_librsvg_attempt load_librsvg_exports by simp
  have cairo: "libcairo (snd (load_cairo E s)) = 0
      \<and> held is_library {#} (new_events s (snd (load_cairo E s))) = {#}
      \<and> (\<exists>es. new_events (snd (load_cairo E s))
                 (snd (load_cairo E' (snd (load_cairo E s))))
               = Dlopen ''libcairo.so.2'' (dlopen_ret E' ''libcairo.so.2'') # es)
      \<and> fst (load_cairo E' (snd (load_cairo E s))) = exports_cairo E'"
    if "\<not> fst (load_cairo E s)"
    using load_cairo_failed [OF that] load_cairo_attempt load_cairo_exports by simp
  have rsvg_ok: "librsvg_so (snd (load_librsvg E s)) \<noteq> 0
      \<and> load_librsvg E' (snd (load_librsvg E s)) = (True, snd (load_librsvg E s))
      \<and> (librsvg_so s = 0 \<longrightarrow>
           librsvg_so (snd (load_librsvg E s)) = dlopen_ret E ''librsvg-2.so.2''
           \<and> held is_library {#} (new_events s (snd (load_librsvg E s)))
               = {#Library (dlopen_ret E ''librsvg-2.so.2'')#})"
    if "fst (load_librsvg E s)"
    using load_librsvg_succeeded [OF that] load_librsvg_loaded by simp
  have cairo_ok: "libcairo (snd (load_cairo E s)) \<noteq> 0
      \<and> load_cairo E' (snd (load_cairo E s)) = (True, snd (load_cairo E s))
      \<and> (libcairo s = 0 \<longrightarrow>
           libcairo (snd (load_cairo E s)) = dlopen_ret E ''libcairo.so.2''
           \<and> held is_library {#} (new_events s (snd (load_cairo E s)))
               = {#Library (dlopen_ret E ''libcairo.so.2'')#})"
    if "fst (load_cairo E s)"
    using load_cairo_succeeded [OF that] load_cairo_loaded by simp
  show ?thesis
    using rsvg cairo rsvg_ok cairo_ok load_librsvg_loaded load_cairo_loaded by blast
qed

text \<open>
  From the initial state, without the libraries: the load fails and leaves the handle
  \<open>NULL\<close>; the next call finds the library of \<open>example_env\<close> and succeeds.  From the
  initial state with the libraries of \<open>example_env\<close>: the load succeeds and stores the
  handle, and the call after it changes nothing.
\<close>

theorem load_idempotent_and_retried_witness:
  "\<not> fst (load_librsvg (example_env\<lparr>dlopen_ret := (\<lambda>name. 0)\<rparr>) (initial_state fninit))
   \<and> librsvg_so (snd (load_librsvg (example_env\<lparr>dlopen_ret := (\<lambda>name. 0)\<rparr>)
                        (initial_state fninit))) = 0
   \<and> fst (load_librsvg example_env
            (snd (load_librsvg (example_env\<lparr>dlopen_ret := (\<lambda>name. 0)\<rparr>)
                    (initial_state fninit))))
   \<and> librsvg_so loaded_state \<noteq> 0
   \<and> load_librsvg example_env loaded_state = (True, loaded_state)
   \<and> \<not> fst (load_cairo (example_env\<lparr>dlopen_ret := (\<lambda>name. 0)\<rparr>) (initial_state fninit))
   \<and> fst (load_cairo example_env
            (snd (load_cairo (example_env\<lparr>dlopen_ret := (\<lambda>name. 0)\<rparr>)
                    (initial_state fninit))))
   \<and> libcairo loaded_state \<noteq> 0
   \<and> load_cairo example_env loaded_state = (True, loaded_state)
   \<and> fst (load_librsvg example_env (initial_state fninit))
   \<and> librsvg_so (initial_state fninit) = 0
   \<and> librsvg_so (snd (load_librsvg example_env (initial_state fninit))) = 100
   \<and> load_librsvg example_env (snd (load_librsvg example_env (initial_state fninit)))
       = (True, snd (load_librsvg example_env (initial_state fninit)))
   \<and> fst (load_cairo example_env (initial_state fninit))
   \<and> libcairo (initial_state fninit) = 0
   \<and> libcairo (snd (load_cairo example_env (initial_state fninit))) = 200
   \<and> load_cairo example_env (snd (load_cairo example_env (initial_state fninit)))
       = (True, snd (load_cairo example_env (initial_state fninit)))"
proof -
  let ?absent = "example_env\<lparr>dlopen_ret := (\<lambda>name. 0)\<rparr>"
  have fails: "\<not> fst (load_librsvg ?absent (initial_state fninit))"
    "\<not> fst (load_cairo ?absent (initial_state fninit))"
    by (simp_all add: load_librsvg_def load_cairo_def dlopen_def initial_state_def)
  have loaded: "librsvg_so loaded_state \<noteq> 0" "libcairo loaded_state \<noteq> 0"
    by (simp_all add: loaded_state_def)
  have unloaded: "librsvg_so (initial_state fninit) = 0" "libcairo (initial_state fninit) = 0"
    by (simp_all add: initial_state_def)
  have exports: "exports_librsvg example_env" "exports_cairo example_env"
    by (simp_all add: exports_librsvg_def exports_cairo_def example_env_def)
  have opened: "dlopen_ret example_env ''librsvg-2.so.2'' = 100"
    "dlopen_ret example_env ''libcairo.so.2'' = 200"
    by (simp_all add: example_env_def)
  have succeeds: "fst (load_librsvg example_env (initial_state fninit))"
    "fst (load_cairo example_env (initial_state fninit))"
    using unloaded exports by (simp_all add: load_librsvg_exports load_cairo_exports)
  note thm1 = load_idempotent_and_retried [of "initial_state fninit" ?absent example_env]
  note thm2 = load_idempotent_and_retried [of loaded_state example_env example_env]
  note thm3 = load_idempotent_and_retried [of "initial_state fninit" example_env example_env]
  have first: "\<not> fst (load_librsvg ?absent (initial_state fninit))
      \<and> librsvg_so (snd (load_librsvg ?absent (initial_state fninit))) = 0
      \<and> fst (load_librsvg example_env (snd (load_librsvg ?absent (initial_state fninit))))
      \<and> librsvg_so loaded_state \<noteq> 0
      \<and> load_librsvg example_env loaded_state = (True, loaded_state)
      \<and> \<not> fst (load_cairo ?absent (initial_state fninit))
      \<and> fst (load_cairo example_env (snd (load_cairo ?absent (initial_state fninit))))
      \<and> libcairo loaded_state \<noteq> 0
      \<and> load_cairo example_env loaded_state = (True, loaded_state)"
    using fails loaded exports thm1 thm2 by simp
  have second: "librsvg_so (snd (load_librsvg example_env (initial_state fninit))) = 100
      \<and> load_librsvg example_env (snd (load_librsvg example_env (initial_state fninit)))
          = (True, snd (load_librsvg example_env (initial_state fninit)))
      \<and> libcairo (snd (load_cairo example_env (initial_state fninit))) = 200
      \<and> load_cairo example_env (snd (load_cairo example_env (initial_state fninit)))
          = (True, snd (load_cairo example_env (initial_state fninit)))"
    using succeeds unloaded opened thm3 by simp
  from first second succeeds unloaded show ?thesis
    by simp
qed

text \<open>
  Claim C2.  The rasterizer library of \<open>example_env_no_scale\<close> lacks \<open>cairo_scale\<close>,
  one of the five symbols \<open>load_cairo\<close> resolves.  The load succeeds all the same and
  keeps the handle, with the pointer \<open>p_cairo_scale\<close> left \<open>NULL\<close>: \<open>load_cairo\<close> tests
  only the first two pointers.  The next render faults when it calls through the
  pointer.
\<close>

theorem load_cairo_accepts_missing_symbol:
  "fst (load_cairo example_env_no_scale (initial_state fninit)) = True
   \<and> libcairo (snd (load_cairo example_env_no_scale (initial_state fninit))) = 200
   \<and> p_cairo_scale (snd (load_cairo example_env_no_scale (initial_state fninit))) = 0
   \<and> fst (rsvg_render example_env_no_scale example_request (initial_state fninit)) = Fault"
  by (simp add: render_defs example_defs double_defs initial_state_def)

text \<open>
  The parser's loader does test every pointer it resolves; after its failure the
  pointers that were found stay in the static variables, with the library closed.
\<close>

lemma load_librsvg_failure_keeps_pointers:
  "load_librsvg
     (example_env\<lparr>dlsym_ret :=
        (\<lambda>h name. if name = ''g_error_free'' then 0 else h + length name)\<rparr>)
     (initial_state fninit) = (ok, s') \<Longrightarrow>
   \<not> ok \<and> librsvg_so s' = 0 \<and> p_g_object_unref s' = 114"
  by (auto simp add: load_librsvg_def dlopen_def dlsym_def example_env_def initial_state_def)

section \<open>Rasterization pipeline: teardown\<close>

text \<open>
  Claim C3.  With both libraries loaded and a surface created, \<open>cairo_create\<close> returns
  \<open>NULL\<close>.  \<open>rsvg_render\<close> destroys the surface in the branch that handles the
  failure, jumps to \<open>done\<close> with the variable \<open>surface\<close> still set, and destroys the
  surface a second time there.
\<close>

theorem rsvg_render_destroys_surface_twice:
  "rsvg_render example_env_no_context example_request loaded_state =
     (Ret STATUS_UNSUCCESSFUL,
      loaded_state\<lparr>trace :=
        [Cairo_image_surface_create_for_data 900 0 50 50 200 600, Cairo_create 600 0,
         Cairo_surface_destroy 600, Cairo_surface_destroy 600]\<rparr>)"
  by (simp add: render_defs example_defs double_defs native_def fninit_def)

section \<open>Rasterization pipeline: the scale gate\<close>

subsection \<open>Calls that do not draw\<close>

lemma no_drawing_refl [simp]: "no_drawing s s"
  by (simp add: no_drawing_def)

lemma no_drawing_trans: "no_drawing s t \<Longrightarrow> no_drawing t u \<Longrightarrow> no_drawing s u"
  by (auto simp: no_drawing_def)

lemma no_drawing_native: "\<not> drawing_call e \<Longrightarrow> no_drawing s t \<Longrightarrow> no_drawing s (native E e t)"
  by (auto simp: no_drawing_def)

lemma no_drawing_fpu [simp]: "no_drawing s (t\<lparr>fpu := f\<rparr>) = no_drawing s t"
  by (simp add: no_drawing_def)

lemma no_drawing_new_events: "no_drawing s s' \<Longrightarrow> \<not> list_ex drawing_call (new_events s s')"
  by (auto simp: no_drawing_def)

lemma load_librsvg_no_drawing: "no_drawing s (snd (load_librsvg E s))"
  by (simp add: load_librsvg_def dlopen_def dlsym_def Let_def no_drawing_def)

lemma load_cairo_no_drawing: "no_drawing s (snd (load_cairo E s))"
  by (simp add: load_cairo_def dlopen_def dlsym_def Let_def no_drawing_def)

lemma render_done_no_drawing: "no_drawing s t \<Longrightarrow> no_drawing s (snd (render_done E ret sf cr t))"
  by (auto simp: render_done_def call_def no_drawing_def)

lemma render_done_fst: "fst (render_done E ret sf cr s) = Fault \<or> fst (render_done E ret sf cr s) = Ret ret"
  by (simp add: render_done_def call_def)

lemma no_drawing_mxcsr [simp]: "no_drawing s (t\<lparr>mxcsr := m\<rparr>) = no_drawing s t"
  by (simp add: no_drawing_def)

lemma no_drawing_from_mxcsr [simp]: "no_drawing (s\<lparr>mxcsr := m\<rparr>) t = no_drawing s t"
  by (simp add: no_drawing_def)

lemma render_draw_rejected:
  assumes "scale_out_of_range E p"
  shows "render_draw E p s =
     (case call E (p_cairo_image_surface_create_for_data s)
             (Cairo_image_surface_create_for_data (pixels p) 0
                (width p) (height p) (stride p) (created_surface E p)) s of
        None \<Rightarrow> (Fault, s)
      | Some s1 \<Rightarrow>
          if created_surface E p = 0
          then render_done E STATUS_UNSUCCESSFUL (created_surface E p) 0 s1
          else
            (case call E (p_cairo_create s1)
                    (Cairo_create (created_surface E p) (created_context E p)) s1 of
               None \<Rightarrow> (Fault, s1)
             | Some s2 \<Rightarrow>
                 if created_context E p = 0 then
                   (case call E (p_cairo_surface_destroy s2)
                           (Cairo_surface_destroy (created_surface E p)) s2 of
                      None \<Rightarrow> (Fault, s2)
                    | Some s3 \<Rightarrow>
                        render_done E STATUS_UNSUCCESSFUL (created_surface E p)
                          (created_context E p) s3)
                 else render_done E STATUS_INVALID_PARAMETER (created_surface E p)
                        (created_context E p)
                        (s2\<lparr>mxcsr := mxcsr s2 OR scale_flags E p\<rparr>)))"
  using assms by (simp add: render_draw_unfold split: option.splits)

lemma render_draw_rejected_no_drawing:
  assumes "scale_out_of_range E p" "no_drawing s t"
  shows "no_drawing s (snd (render_draw E p t))"
  using assms(2)
  by (auto simp: render_draw_rejected [OF assms(1)] call_def
      intro!: render_done_no_drawing no_drawing_native split: option.splits)

lemma render_draw_rejected_status:
  assumes "scale_out_of_range E p"
  shows "fst (render_draw E p s) \<noteq> Ret STATUS_SUCCESS"
proof -
  have "fst (render_done E STATUS_UNSUCCESSFUL sf cr t) \<noteq> Ret STATUS_SUCCESS"
    "fst (render_done E STATUS_INVALID_PARAMETER sf cr t) \<noteq> Ret STATUS_SUCCESS" for sf cr t
    using render_done_fst [of E STATUS_UNSUCCESSFUL sf cr t]
      render_done_fst [of E STATUS_INVALID_PARAMETER sf cr t]
    by (auto simp: status_defs)
  then show ?thesis
    by (simp add: render_draw_rejected [OF assms] call_def split: option.splits)
qed

lemma rsvg_render_rejected_no_drawing:
  assumes "scale_out_of_range E p"
  shows "no_drawing s (snd (rsvg_render E p s))"
proof -
  let ?s0 = "s\<lparr>mxcsr := mxcsr s OR viewport_flags E p\<rparr>"
  obtain ok1 s1 where l1: "load_librsvg E ?s0 = (ok1, s1)"
    by (cases "load_librsvg E ?s0")
  obtain ok2 s2 where l2: "load_cairo E s1 = (ok2, s2)"
    by (cases "load_cairo E s1")
  have n1: "no_drawing s s1"
    using load_librsvg_no_drawing [of ?s0 E] l1 by simp
  have "no_drawing s1 s2"
    using load_cairo_no_drawing [of s1 E] l2 by simp
  with n1 have n2: "no_drawing s s2"
    by (rule no_drawing_trans)
  show ?thesis
    using l1 l2 n1 n2 render_draw_rejected_no_drawing [OF assms n2]
    by (cases ok1; cases ok2)
      (auto simp: rsvg_render_unfold render_done_nothing intro!: render_done_no_drawing)
qed

lemma rsvg_render_rejected_status:
  assumes "scale_out_of_range E p"
  shows "fst (rsvg_render E p s) \<noteq> Ret STATUS_SUCCESS"
proof -
  have "fst (render_done E STATUS_NOT_SUPPORTED sf cr t) \<noteq> Ret STATUS_SUCCESS"
    "fst (render_done E STATUS_INVALID_PARAMETER sf cr t) \<noteq> Ret STATUS_SUCCESS" for sf cr t
    using render_done_fst [of E STATUS_NOT_SUPPORTED sf cr t]
      render_done_fst [of E STATUS_INVALID_PARAMETER sf cr t]
    by (auto simp: status_defs)
  then show ?thesis
    using render_draw_rejected_status [OF assms]
    by (simp add: rsvg_render_unfold status_defs split: prod.splits bool.splits)
qed

lemma rsvg_render_ready:
  assumes "libs_ready s"
  shows "rsvg_render E p s =
     (if render_handle p = 0 \<or> pixels p = 0
      then (Ret STATUS_INVALID_PARAMETER, s\<lparr>fpu := fninit\<rparr>)
      else if \<not> passes_parameter_gates p
      then (Ret STATUS_INVALID_PARAMETER,
            s\<lparr>fpu := fninit, mxcsr := mxcsr s OR viewport_flags E p\<rparr>)
      else render_draw E p (s\<lparr>mxcsr := mxcsr s OR viewport_flags E p\<rparr>))"
  using assms
  by (simp add: rsvg_render_unfold libs_ready_def load_librsvg_loaded load_cairo_loaded)

lemma render_draw_rejected_ready:
  assumes "scale_out_of_range E p" "libs_ready s" "creation_succeeds E p"
  shows "render_draw E p s =
     (Ret STATUS_INVALID_PARAMETER,
      (native E (Cairo_surface_destroy (created_surface E p))
         (native E (Cairo_destroy (created_context E p))
            ((native E (Cairo_create (created_surface E p) (created_context E p))
                (native E (Cairo_image_surface_create_for_data (pixels p) 0 (width p)
                             (height p) (stride p) (created_surface E p)) s))
             \<lparr>mxcsr :=
                 mxcsr (native E (Cairo_create (created_surface E p) (created_context E p))
                   (native E (Cairo_image_surface_create_for_data (pixels p) 0 (width p)
                                (height p) (stride p) (created_surface E p)) s))
                 OR scale_flags E p\<rparr>)))
      \<lparr>fpu := fninit\<rparr>)"
  using assms(2,3)
  by (simp add: render_draw_rejected [OF assms(1)] libs_ready_def cairo_bound_def
      creation_succeeds_def call_def render_done_def)

text \<open>
  Claim C1, amended.  When the scale \<open>rsvg_render\<close> computes on either axis compares
  \<open>\<le> 0\<close> or \<open>> 1000\<close>, the call makes no drawing call (it neither scales the context
  nor renders the document) and does not return success.  With both libraries loaded
  and surface and context creation succeeding it returns \<open>STATUS_INVALID_PARAMETER\<close>.
  The scale is tested after the surface and the context have been created: a request
  that passes the three parameter gates makes four native calls, which create the
  surface and the context and destroy the context and the surface.
\<close>

theorem rsvg_render_scale_out_of_range:
  assumes "scale_out_of_range E p"
  shows "\<not> list_ex drawing_call (new_events s (snd (rsvg_render E p s)))
     \<and> fst (rsvg_render E p s) \<noteq> Ret STATUS_SUCCESS
     \<and> (libs_ready s \<and> creation_succeeds E p \<longrightarrow>
          fst (rsvg_render E p s) = Ret STATUS_INVALID_PARAMETER)
     \<and> (libs_ready s \<and> creation_succeeds E p \<and> passes_parameter_gates p \<longrightarrow>
          new_events s (snd (rsvg_render E p s)) =
            [Cairo_image_surface_create_for_data (pixels p) 0 (width p) (height p) (stride p)
               (created_surface E p),
             Cairo_create (created_surface E p) (created_context E p),
             Cairo_destroy (created_context E p),
             Cairo_surface_destroy (created_surface E p)])"
proof -
  have a: "\<not> list_ex drawing_call (new_events s (snd (rsvg_render E p s)))"
    using rsvg_render_rejected_no_drawing [OF assms] by (rule no_drawing_new_events)
  have b: "fst (rsvg_render E p s) \<noteq> Ret STATUS_SUCCESS"
    using assms by (rule rsvg_render_rejected_status)
  have ready: "libs_ready (s\<lparr>mxcsr := m\<rparr>) = libs_ready s" for m
    by (simp add: libs_ready_def cairo_bound_def)
  have c: "fst (rsvg_render E p s) = Ret STATUS_INVALID_PARAMETER"
    if "libs_ready s" "creation_succeeds E p"
    using that by (simp add: rsvg_render_ready render_draw_rejected_ready [OF assms] ready)
  have d: "new_events s (snd (rsvg_render E p s)) =
            [Cairo_image_surface_create_for_data (pixels p) 0 (width p) (height p) (stride p)
               (created_surface E p),
             Cairo_create (created_surface E p) (created_context E p),
             Cairo_destroy (created_context E p),
             Cairo_surface_destroy (created_surface E p)]"
    if "libs_ready s" "creation_succeeds E p" "passes_parameter_gates p"
    using that
    by (simp add: rsvg_render_ready render_draw_rejected_ready [OF assms] ready
        passes_parameter_gates_def new_events_def)
  from a b c d show ?thesis
    by blast
qed

text \<open>
  Claim C1, as stated, fails: with a scale of 3200 on the horizontal axis the request is
  rejected with \<open>STATUS_INVALID_PARAMETER\<close>, but only after four native calls.
\<close>

theorem scale_rejected_after_creation:
  "scale_out_of_range example_env tiny_viewport_request
   \<and> fst (rsvg_render example_env tiny_viewport_request loaded_state) = Ret STATUS_INVALID_PARAMETER
   \<and> new_events loaded_state (snd (rsvg_render example_env tiny_viewport_request loaded_state))
       = [Cairo_image_surface_create_for_data 900 0 50 50 200 600, Cairo_create 600 700,
          Cairo_destroy 700, Cairo_surface_destroy 600]"
  by (simp add: render_defs example_defs double_defs
      scale_out_of_range_def request_scale_x_def request_scale_y_def new_events_def native_def)

theorem rsvg_render_scale_out_of_range_witness:
  "scale_out_of_range example_env (example_request\<lparr>svg_height := Fin (-100)\<rparr>)
   \<and> libs_ready loaded_state
   \<and> creation_succeeds example_env (example_request\<lparr>svg_height := Fin (-100)\<rparr>)
   \<and> passes_parameter_gates (example_request\<lparr>svg_height := Fin (-100)\<rparr>)
   \<and> fst (rsvg_render example_env (example_request\<lparr>svg_height := Fin (-100)\<rparr>) loaded_state)
       = Ret STATUS_INVALID_PARAMETER
   \<and> new_events loaded_state
        (snd (rsvg_render example_env (example_request\<lparr>svg_height := Fin (-100)\<rparr>) loaded_state))
       = [Cairo_image_surface_create_for_data 900 0 50 50 200 600, Cairo_create 600 700,
          Cairo_destroy 700, Cairo_surface_destroy 600]"
proof -
  let ?p = "example_request\<lparr>svg_height := Fin (-100)\<rparr>"
  have range: "scale_out_of_range example_env ?p"
    by (simp add: scale_out_of_range_def request_scale_x_def request_scale_y_def
        example_defs double_defs)
  have ready: "libs_ready loaded_state"
    by (simp add: libs_ready_def cairo_bound_def loaded_state_def)
  have created: "creation_succeeds example_env ?p"
    by (simp add: creation_succeeds_def created_surface_def created_context_def example_defs)
  have gates: "passes_parameter_gates ?p"
    by (simp add: passes_parameter_gates_def example_defs double_defs)
  from rsvg_render_scale_out_of_range [OF range, of loaded_state] ready created gates
  have "fst (rsvg_render example_env ?p loaded_state) = Ret STATUS_INVALID_PARAMETER"
    and "new_events loaded_state (snd (rsvg_render example_env ?p loaded_state)) =
           [Cairo_image_surface_create_for_data (pixels ?p) 0 (width ?p) (height ?p) (stride ?p)
              (created_surface example_env ?p),
            Cairo_create (created_surface example_env ?p) (created_context example_env ?p),
            Cairo_destroy (created_context example_env ?p),
            Cairo_surface_destroy (created_surface example_env ?p)]"
    by simp_all
  then show ?thesis
    using range ready created gates
    by (simp add: created_surface_def created_context_def example_defs)
qed

section \<open>Rasterization pipeline: the viewport gate\<close>

text \<open>
  Claim C8, as stated, fails: a viewport whose width alone is below the threshold passes
  the gate, and with a scale of 256 by 1 the document is rendered.
\<close>

theorem thin_viewport_rendered:
  "dle (svg_width thin_request) lit_0_01
   \<and> fst (rsvg_render example_env thin_request loaded_state) = Ret STATUS_SUCCESS
   \<and> STATUS_SUCCESS \<noteq> STATUS_INVALID_PARAMETER"
  by (simp add: render_defs example_defs double_defs status_defs)

text \<open>The calls that went on past the parameter gates have left the trace longer.\<close>

lemma no_drawing_length: "no_drawing s t \<Longrightarrow> length (trace s) \<le> length (trace t)"
  by (auto simp: no_drawing_def)

lemma render_done_length:
  "length (trace s) \<le> length (trace (snd (render_done E ret sf cr s)))"
  by (simp add: render_done_def call_def)

lemma render_draw_length:
  "fst (render_draw E p s) \<noteq> Fault \<Longrightarrow>
     length (trace s) < length (trace (snd (render_draw E p s)))"
  by (auto simp: render_draw_unfold call_def render_done_def split: option.splits if_splits)

lemma new_events_empty: "(new_events s t = []) = (length (trace t) \<le> length (trace s))"
  by (simp add: new_events_def)

lemma rsvg_render_past_gates:
  assumes "passes_parameter_gates p"
  shows "\<not> (fst (rsvg_render E p s) = Ret STATUS_INVALID_PARAMETER
            \<and> new_events s (snd (rsvg_render E p s)) = [])"
proof -
  let ?s0 = "s\<lparr>mxcsr := mxcsr s OR viewport_flags E p\<rparr>"
  obtain ok1 s1 where l1: "load_librsvg E ?s0 = (ok1, s1)"
    by (cases "load_librsvg E ?s0")
  obtain ok2 s2 where l2: "load_cairo E s1 = (ok2, s2)"
    by (cases "load_cairo E s1")
  have "length (trace s) \<le> length (trace s1)"
    using no_drawing_length [OF load_librsvg_no_drawing [of ?s0 E]] l1 by simp
  moreover have "length (trace s1) \<le> length (trace s2)"
    using no_drawing_length [OF load_cairo_no_drawing [of s1 E]] l2 by simp
  ultimately have len: "length (trace s) \<le> length (trace s2)"
    by simp
  have gates: "render_handle p \<noteq> 0" "pixels p \<noteq> 0"
    using assms by (simp_all add: passes_parameter_gates_def)
  have ne: "STATUS_NOT_SUPPORTED \<noteq> STATUS_INVALID_PARAMETER"
    by (simp add: status_defs)
  show ?thesis
  proof (cases "ok1 \<and> ok2 \<and> p_rsvg_handle_render_document s2 \<noteq> 0")
    case False
    then show ?thesis
      using assms gates l1 l2 ne
      by (cases ok1; cases ok2) (auto simp: rsvg_render_unfold render_done_nothing)
  next
    case True
    then have eq: "rsvg_render E p s = render_draw E p s2"
      using assms gates l1 l2 by (simp add: rsvg_render_unfold)
    show ?thesis
    proof
      assume a: "fst (rsvg_render E p s) = Ret STATUS_INVALID_PARAMETER
        \<and> new_events s (snd (rsvg_render E p s)) = []"
      then have "fst (render_draw E p s2) \<noteq> Fault"
        by (simp add: eq)
      from render_draw_length [OF this] len a show False
        by (simp add: eq new_events_empty)
    qed
  qed
qed

text \<open>
  Claim C8, amended.  A request whose viewport width and height are both at most the
  threshold \<open>0.01\<close> is rejected with \<open>STATUS_INVALID_PARAMETER\<close> before any library is
  loaded and before any native call: the state is the one before the call but for the
  x87 reset and the flags that the comparisons of the gate raise in \<open>MXCSR\<close>.  A
  viewport of 0.0 by 0.0 is such a request.  The gate rejects nothing else: a request
  is rejected with \<open>STATUS_INVALID_PARAMETER\<close> before any call exactly when it fails one
  of the three parameter gates, so a request with a non-\<open>NULL\<close> handle and buffer,
  nonzero target dimensions and only one viewport dimension at or below the threshold
  goes on to the library loads; with the libraries loaded it goes on to the creation
  of the surface.
\<close>

theorem rsvg_render_degenerate_viewport:
  "(dle (svg_width p) lit_0_01 \<and> dle (svg_height p) lit_0_01 \<longrightarrow>
      fst (rsvg_render E p s) = Ret STATUS_INVALID_PARAMETER
      \<and> (snd (rsvg_render E p s))\<lparr>mxcsr := mxcsr s\<rparr> = s\<lparr>fpu := fninit\<rparr>
      \<and> (render_handle p \<noteq> 0 \<and> pixels p \<noteq> 0 \<longrightarrow>
           rsvg_render E p s =
             (Ret STATUS_INVALID_PARAMETER,
              s\<lparr>fpu := fninit, mxcsr := mxcsr s OR viewport_flags E p\<rparr>)))
   \<and> ((fst (rsvg_render E p s) = Ret STATUS_INVALID_PARAMETER
         \<and> new_events s (snd (rsvg_render E p s)) = [])
        = (\<not> passes_parameter_gates p))
   \<and> (libs_ready s \<and> passes_parameter_gates p \<longrightarrow>
        rsvg_render E p s = render_draw E p (s\<lparr>mxcsr := mxcsr s OR viewport_flags E p\<rparr>))"
proof -
  have a: "fst (rsvg_render E p s) = Ret STATUS_INVALID_PARAMETER
      \<and> (snd (rsvg_render E p s))\<lparr>mxcsr := mxcsr s\<rparr> = s\<lparr>fpu := fninit\<rparr>
      \<and> (render_handle p \<noteq> 0 \<and> pixels p \<noteq> 0 \<longrightarrow>
           rsvg_render E p s =
             (Ret STATUS_INVALID_PARAMETER,
              s\<lparr>fpu := fninit, mxcsr := mxcsr s OR viewport_flags E p\<rparr>))"
    if "dle (svg_width p) lit_0_01 \<and> dle (svg_height p) lit_0_01"
  proof -
    from that have "\<not> passes_parameter_gates p"
      by (simp add: passes_parameter_gates_def)
    then show ?thesis
      by (simp add: rsvg_render_unfold)
  qed
  have b: "fst (rsvg_render E p s) = Ret STATUS_INVALID_PARAMETER
      \<and> new_events s (snd (rsvg_render E p s)) = []"
    if "\<not> passes_parameter_gates p"
    using that by (simp add: rsvg_render_unfold new_events_def)
  have c: "rsvg_render E p s = render_draw E p (s\<lparr>mxcsr := mxcsr s OR viewport_flags E p\<rparr>)"
    if "libs_ready s" "passes_parameter_gates p"
  proof -
    from that(2) have "render_handle p \<noteq> 0 \<and> pixels p \<noteq> 0"
      by (simp add: passes_parameter_gates_def)
    with that show ?thesis
      by (simp add: rsvg_render_ready)
  qed
  from a b c rsvg_render_past_gates [of p E s] show ?thesis
    by blast
qed

text \<open>
  A viewport of 0.0 by 0.0 from the initial state, and the viewport of 1/256 by 64 of
  \<open>thin_request\<close> with the libraries loaded.
\<close>

theorem rsvg_render_degenerate_viewport_witness:
  "dle (Fin 0) lit_0_01
   \<and> rsvg_render example_env (example_request\<lparr>svg_width := Fin 0, svg_height := Fin 0\<rparr>)
        (initial_state fninit)
       = (Ret STATUS_INVALID_PARAMETER, initial_state fninit)
   \<and> libs_ready loaded_state \<and> passes_parameter_gates thin_request
   \<and> dle (svg_width thin_request) lit_0_01
   \<and> rsvg_render example_env thin_request loaded_state
       = render_draw example_env thin_request loaded_state
   \<and> new_events loaded_state (snd (rsvg_render example_env thin_request loaded_state)) \<noteq> []"
proof -
  let ?p = "example_request\<lparr>svg_width := Fin 0, svg_height := Fin 0\<rparr>"
  have small: "dle (Fin 0) lit_0_01"
    by (simp add: lit_0_01_def)
  then have both: "dle (svg_width ?p) lit_0_01 \<and> dle (svg_height ?p) lit_0_01"
    by simp
  have args: "render_handle ?p \<noteq> 0 \<and> pixels ?p \<noteq> 0"
    by (simp add: example_request_def)
  have flags: "viewport_flags example_env ?p = 0"
    "viewport_flags example_env thin_request = 0"
    by (simp_all add: viewport_flags_def example_defs lit_0_01_def)
  have ready: "libs_ready loaded_state"
    by (simp add: libs_ready_def cairo_bound_def loaded_state_def)
  have gates: "passes_parameter_gates thin_request"
    by (simp add: passes_parameter_gates_def thin_request_def lit_0_01_def)
  have thin: "dle (svg_width thin_request) lit_0_01"
    by (simp add: thin_request_def lit_0_01_def)
  note inst1 = rsvg_render_degenerate_viewport [of ?p example_env "initial_state fninit"]
  note inst2 = rsvg_render_degenerate_viewport [of thin_request example_env loaded_state]
  from inst1 both args have "rsvg_render example_env ?p (initial_state fninit)
      = (Ret STATUS_INVALID_PARAMETER,
         (initial_state fninit)\<lparr>fpu := fninit,
            mxcsr := mxcsr (initial_state fninit) OR viewport_flags example_env ?p\<rparr>)"
    by blast
  then have 1: "rsvg_render example_env ?p (initial_state fninit)
      = (Ret STATUS_INVALID_PARAMETER, initial_state fninit)"
    by (simp add: flags(1) initial_state_def)
  from inst2 ready gates have "rsvg_render example_env thin_request loaded_state
      = render_draw example_env thin_request
          (loaded_state\<lparr>mxcsr := mxcsr loaded_state OR viewport_flags example_env thin_request\<rparr>)"
    by blast
  then have 2: "rsvg_render example_env thin_request loaded_state
      = render_draw example_env thin_request loaded_state"
    by (simp add: flags(2))
  from inst2 gates have "\<not> (fst (rsvg_render example_env thin_request loaded_state)
        = Ret STATUS_INVALID_PARAMETER
      \<and> new_events loaded_state (snd (rsvg_render example_env thin_request loaded_state)) = [])"
    by blast
  moreover have "fst (rsvg_render example_env thin_request loaded_state) = Ret STATUS_SUCCESS"
    by (simp add: render_defs example_defs double_defs)
  moreover have "new_events loaded_state
      (snd (rsvg_render example_env thin_request loaded_state)) \<noteq> []"
    by (simp add: render_defs example_defs double_defs new_events_def native_def)
  ultimately have 3: "new_events loaded_state
      (snd (rsvg_render example_env thin_request loaded_state)) \<noteq> []"
    by blast
  from small 1 ready gates thin 2 3 show ?thesis
    by (intro conjI)
qed

section \<open>Document creation: failures release what was obtained\<close>

subsection \<open>Resources along a trace\<close>

lemma held_append: "held P M (es @ es') = held P (held P M es) es'"
  by (induction es arbitrary: M) simp_all

lemma trace_new_events: "trace s' = trace s @ es \<Longrightarrow> new_events s s' = es"
  by (simp add: new_events_def)

lemma librsvg_bound_initial: "librsvg_bound (initial_state f)"
  by (simp add: librsvg_bound_def initial_state_def)

lemma load_librsvg_bound: "librsvg_bound s \<Longrightarrow> librsvg_bound (snd (load_librsvg E s))"
  by (auto simp: load_librsvg_def dlopen_def dlsym_def Let_def librsvg_bound_def
      split: if_splits)

lemma load_librsvg_True:
  assumes "librsvg_bound s" "load_librsvg E s = (True, s1)"
  shows "p_rsvg_handle_new_from_data s1 \<noteq> 0 \<and> p_g_object_unref s1 \<noteq> 0
         \<and> p_g_error_free s1 \<noteq> 0 \<and> librsvg_so s1 \<noteq> 0"
  using assms
  by (auto simp: load_librsvg_def dlopen_def dlsym_def Let_def librsvg_bound_def
      split: if_splits)

lemma load_librsvg_held:
  "\<exists>es. trace (snd (load_librsvg E s)) = trace s @ es
     \<and> (\<forall>M. held (\<lambda>r. \<not> is_library r) M es = M)
     \<and> documents (snd (load_librsvg E s)) = documents s"
  by (simp add: load_librsvg_def dlopen_def dlsym_def Let_def)

text \<open>What \<open>rsvg_create_handle\<close> does once the loader has answered.\<close>

lemma rsvg_create_handle_not_loaded:
  "load_librsvg E s = (False, s1) \<Longrightarrow>
     rsvg_create_handle E p s = (Ret STATUS_NOT_SUPPORTED, p\<lparr>handle := 0\<rparr>, s1)"
  by (simp add: rsvg_create_handle_def)

lemma rsvg_create_handle_loaded:
  assumes "load_librsvg E s = (True, s1)"
    and "p_rsvg_handle_new_from_data s1 \<noteq> 0" "p_g_error_free s1 \<noteq> 0"
    and "new_from_data_ret E (data p) (size p) = (h, err)"
  shows "rsvg_create_handle E p s =
     (if h = 0 then
        (Ret STATUS_UNSUCCESSFUL, p\<lparr>handle := 0\<rparr>,
         if err \<noteq> 0
         then native E (G_error_free err)
                (native E (Rsvg_handle_new_from_data (data p) (size p) h err) s1)
         else native E (Rsvg_handle_new_from_data (data p) (size p) h err) s1)
      else (Ret STATUS_SUCCESS, p\<lparr>handle := h\<rparr>,
            native E (Rsvg_handle_new_from_data (data p) (size p) h err) s1))"
  using assms by (simp add: rsvg_create_handle_def call_def)

lemma rsvg_create_handle_held:
  assumes "librsvg_bound s" "rsvg_create_handle E p s = (r, p', s')"
  shows "\<exists>es. trace s' = trace s @ es \<and> documents s' = documents s
     \<and> r \<noteq> Fault
     \<and> (if r = Ret STATUS_SUCCESS
         then handle p' \<noteq> 0 \<and> p_g_object_unref s' \<noteq> 0
            \<and> (\<forall>M. held (\<lambda>r. \<not> is_library r) M es = M + {#Parsed (handle p')#})
            \<and> (\<exists>es' err. es = es' @
                  [Rsvg_handle_new_from_data (data p) (size p) (handle p') err])
         else handle p' = 0 \<and> (\<forall>M. held (\<lambda>r. \<not> is_library r) M es = M))"
proof -
  obtain ok s1 where l: "load_librsvg E s = (ok, s1)"
    by (cases "load_librsvg E s")
  obtain les where les: "trace s1 = trace s @ les"
    "\<And>M. held (\<lambda>r. \<not> is_library r) M les = M" "documents s1 = documents s"
    using load_librsvg_held [of E s] l by auto
  show ?thesis
  proof (cases ok)
    case False
    with assms(2) l les show ?thesis
      by (auto simp: rsvg_create_handle_not_loaded status_defs)
  next
    case True
    obtain h err where ret: "new_from_data_ret E (data p) (size p) = (h, err)"
      by (cases "new_from_data_ret E (data p) (size p)")
    from True l have l': "load_librsvg E s = (True, s1)"
      by simp
    from load_librsvg_True [OF assms(1) l']
    have ptrs: "p_rsvg_handle_new_from_data s1 \<noteq> 0" "p_g_error_free s1 \<noteq> 0"
      "p_g_object_unref s1 \<noteq> 0"
      by simp_all
    from assms(2) show ?thesis
      unfolding rsvg_create_handle_loaded [OF l' ptrs(1,2) ret]
      using les ptrs(3)
      by (auto simp: status_defs held_append split: if_splits)
  qed
qed


lemma librsvg_bound_host [simp]: "librsvg_bound (host e s) = librsvg_bound s"
  by (simp add: librsvg_bound_def)

lemma librsvg_bound_native [simp]: "librsvg_bound (native E e s) = librsvg_bound s"
  by (simp add: librsvg_bound_def)

lemma rsvg_free_handle_bound:
  "h \<noteq> 0 \<Longrightarrow> p_g_object_unref s \<noteq> 0 \<Longrightarrow>
     rsvg_free_handle E \<lparr>free_handle = h\<rparr> s = (Ret STATUS_SUCCESS, native E (G_object_unref h) s)"
  by (simp add: rsvg_free_handle_def call_def)

lemma create_after_read:
  assumes "unixlib_handle H \<noteq> 0" "stat_ret H = Some cb" "buffer_alloc_ret H \<noteq> 0"
    "read_ret H = Some bytes"
    and "rsvg_create_handle E \<lparr>data = bytes, size = of_nat (length bytes), handle = 0\<rparr>
           (host IStream_Read (host (HeapAlloc cb (buffer_alloc_ret H)) (host IStream_Stat s)))
         = (Ret st, p', s4)"
  shows "d2d_svg_document_create H E f v s =
     (if st \<noteq> 0 then (Ret E_FAIL, None, host (HeapFree (buffer_alloc_ret H)) s4)
      else if object_alloc_ret H = 0 then
        (case rsvg_free_handle E \<lparr>free_handle = handle p'\<rparr>
                (host (HeapAllocZero 0) (host (HeapFree (buffer_alloc_ret H)) s4)) of
           (Fault, s7) \<Rightarrow> (Fault, None, s7)
         | (Ret st', s7) \<Rightarrow> (Ret E_OUTOFMEMORY, None, s7))
      else if f = 0 then
        (Fault, None,
         set_document (object_alloc_ret H)
           (Some \<lparr>refcount = 1, viewport_size = v, rsvg_handle = handle p', factory = f\<rparr>)
           (host (HeapAllocZero (object_alloc_ret H))
              (host (HeapFree (buffer_alloc_ret H)) s4)))
      else
        (Ret S_OK, Some (object_alloc_ret H),
         host (ID2D1Factory_AddRef f)
           (set_document (object_alloc_ret H)
              (Some \<lparr>refcount = 1, viewport_size = v, rsvg_handle = handle p', factory = f\<rparr>)
              (host (HeapAllocZero (object_alloc_ret H))
                 (host (HeapFree (buffer_alloc_ret H)) s4)))))"
  using assms by (simp add: d2d_svg_document_create_def Let_def)

lemma create_failure:
  assumes inv: "librsvg_bound s"
    and c: "d2d_svg_document_create H E f v s = (Ret hr, doc, s')"
    and hr: "hr \<noteq> S_OK"
  shows "doc = None \<and> documents s' = documents s \<and> leaked (new_events s s') = {#}
     \<and> (hr = E_OUTOFMEMORY \<and> buffer_alloc_ret H \<noteq> 0 \<longrightarrow>
          (\<exists>es bytes h err. h \<noteq> 0 \<and> new_events s s' =
             es @ [Rsvg_handle_new_from_data bytes (of_nat (length bytes)) h err,
                   HeapFree (buffer_alloc_ret H), HeapAllocZero 0, G_object_unref h]))"
proof (cases "unixlib_handle H = 0 \<or> stat_ret H = None \<or> buffer_alloc_ret H = 0
    \<or> read_ret H = None")
  case True
  with c show ?thesis
    by (auto simp: d2d_svg_document_create_def Let_def leaked_def new_events_def status_defs
        split: if_splits option.splits)
next
  case False
  then obtain cb bytes where g: "unixlib_handle H \<noteq> 0" "stat_ret H = Some cb"
    "buffer_alloc_ret H \<noteq> 0" "read_ret H = Some bytes"
    by auto
  let ?s3 = "host IStream_Read (host (HeapAlloc cb (buffer_alloc_ret H)) (host IStream_Stat s))"
  let ?p = "\<lparr>data = bytes, size = of_nat (length bytes), handle = 0\<rparr>"
  obtain r p' s4 where u: "rsvg_create_handle E ?p ?s3 = (r, p', s4)"
    by (cases "rsvg_create_handle E ?p ?s3") auto
  have inv3: "librsvg_bound ?s3"
    using inv by simp
  from rsvg_create_handle_held [OF inv3 u]
  obtain es where es: "trace s4 = trace ?s3 @ es" "documents s4 = documents ?s3" "r \<noteq> Fault"
    and res: "if r = Ret STATUS_SUCCESS
         then handle p' \<noteq> 0 \<and> p_g_object_unref s4 \<noteq> 0
            \<and> (\<forall>M. held (\<lambda>r. \<not> is_library r) M es = M + {#Parsed (handle p')#})
            \<and> (\<exists>es' err. es = es' @
                  [Rsvg_handle_new_from_data (data ?p) (size ?p) (handle p') err])
         else handle p' = 0 \<and> (\<forall>M. held (\<lambda>r. \<not> is_library r) M es = M)"
    by blast
  from es(3) obtain st where r: "r = Ret st"
    by (cases r) auto
  note eq = create_after_read [OF g u [unfolded r], of f v]
  show ?thesis
  proof (cases "st = 0")
    case False
    with res r have held: "\<And>M. held (\<lambda>r. \<not> is_library r) M es = M"
      by (simp add: STATUS_SUCCESS_def)
    from c False have "hr = E_FAIL" "doc = None" "s' = host (HeapFree (buffer_alloc_ret H)) s4"
      unfolding eq by simp_all
    with es held g show ?thesis
      by (simp add: leaked_def new_events_def held_append status_defs)
  next
    case True
    with res r have h: "handle p' \<noteq> 0" "p_g_object_unref s4 \<noteq> 0"
      and held: "\<And>M. held (\<lambda>r. \<not> is_library r) M es = M + {#Parsed (handle p')#}"
      and last: "\<exists>es' err. es = es' @
                  [Rsvg_handle_new_from_data bytes (of_nat (length bytes)) (handle p') err]"
      by (simp_all add: STATUS_SUCCESS_def)
    from c hr True have obj: "object_alloc_ret H = 0"
      unfolding eq by (auto split: if_splits)
    have free: "rsvg_free_handle E \<lparr>free_handle = handle p'\<rparr>
        (host (HeapAllocZero 0) (host (HeapFree (buffer_alloc_ret H)) s4))
      = (Ret STATUS_SUCCESS, native E (G_object_unref (handle p'))
          (host (HeapAllocZero 0) (host (HeapFree (buffer_alloc_ret H)) s4)))"
      using h by (intro rsvg_free_handle_bound) simp_all
    from c True obj have res': "hr = E_OUTOFMEMORY" "doc = None"
      "s' = native E (G_object_unref (handle p'))
          (host (HeapAllocZero 0) (host (HeapFree (buffer_alloc_ret H)) s4))"
      unfolding eq free by simp_all
    from last obtain es' err where es': "es = es' @
        [Rsvg_handle_new_from_data bytes (of_nat (length bytes)) (handle p') err]"
      by blast
    have tr: "new_events s s' = [IStream_Stat, HeapAlloc cb (buffer_alloc_ret H), IStream_Read]
        @ es @ [HeapFree (buffer_alloc_ret H), HeapAllocZero 0, G_object_unref (handle p')]"
      using res'(3) es(1) by (simp add: new_events_def)
    have "leaked (new_events s s') = {#}"
      unfolding tr leaked_def using g(3) h(1) held by (simp add: held_append)
    moreover have "\<exists>es bytes h err. h \<noteq> 0 \<and> new_events s s' =
             es @ [Rsvg_handle_new_from_data bytes (of_nat (length bytes)) h err,
                   HeapFree (buffer_alloc_ret H), HeapAllocZero 0, G_object_unref h]"
      unfolding tr es' using h(1) by (intro exI [of _ "[IStream_Stat, HeapAlloc cb (buffer_alloc_ret H), IStream_Read] @ es'"] exI [of _ bytes] exI [of _ "handle p'"] exI [of _ err]) simp
    ultimately show ?thesis
      using res' es(2) by simp
  qed
qed

lemma rsvg_create_handle_error_freed:
  assumes inv: "librsvg_bound s" and ok: "fst (load_librsvg E s)"
    and ret: "new_from_data_ret E (data p) (size p) = (0, err)" and err: "err \<noteq> 0"
  shows "fst (rsvg_create_handle E p s) = Ret STATUS_UNSUCCESSFUL
     \<and> (\<exists>es. new_events s (snd (snd (rsvg_create_handle E p s))) =
           es @ [Rsvg_handle_new_from_data (data p) (size p) 0 err, G_error_free err])"
proof -
  obtain s1 where l: "load_librsvg E s = (True, s1)"
    using ok by (cases "load_librsvg E s") auto
  from load_librsvg_True [OF inv l]
  have ptrs: "p_rsvg_handle_new_from_data s1 \<noteq> 0" "p_g_error_free s1 \<noteq> 0"
    by simp_all
  obtain les where les: "trace s1 = trace s @ les"
    using load_librsvg_held [of E s] l by auto
  show ?thesis
    unfolding rsvg_create_handle_loaded [OF l ptrs ret]
    using err les by (simp add: new_events_def)
qed

lemma create_no_fault:
  assumes inv: "librsvg_bound s" and f: "f \<noteq> 0"
  shows "fst (d2d_svg_document_create H E f v s) \<noteq> Fault"
proof (cases "unixlib_handle H = 0 \<or> stat_ret H = None \<or> buffer_alloc_ret H = 0
    \<or> read_ret H = None")
  case True
  then show ?thesis
    by (auto simp: d2d_svg_document_create_def Let_def split: option.splits)
next
  case False
  then obtain cb bytes where g: "unixlib_handle H \<noteq> 0" "stat_ret H = Some cb"
    "buffer_alloc_ret H \<noteq> 0" "read_ret H = Some bytes"
    by auto
  let ?s3 = "host IStream_Read (host (HeapAlloc cb (buffer_alloc_ret H)) (host IStream_Stat s))"
  let ?p = "\<lparr>data = bytes, size = of_nat (length bytes), handle = 0\<rparr>"
  obtain r p' s4 where u: "rsvg_create_handle E ?p ?s3 = (r, p', s4)"
    by (cases "rsvg_create_handle E ?p ?s3") auto
  have inv3: "librsvg_bound ?s3"
    using inv by simp
  from rsvg_create_handle_held [OF inv3 u] obtain st where r: "r = Ret st"
    by (cases r) auto
  have "rsvg_free_handle E q t \<noteq> (Fault, t')" for q t t'
    by (simp add: rsvg_free_handle_def call_def)
  then show ?thesis
    unfolding create_after_read [OF g u [unfolded r], of f v]
    using f by (auto split: prod.splits outcome.splits)
qed

text \<open>
  Claim C6.  In a state where the parser library, if loaded, has its pointers bound (the
  initial state is one, and every function keeps it so): \<open>rsvg_create_handle\<close> returns,
  and when its status is not success the out handle is \<open>NULL\<close> and nothing is left
  behind; when the parser returns no handle but an error object, the status is
  \<open>STATUS_UNSUCCESSFUL\<close> and the call right after the parse is \<open>g_error_free\<close> on that
  object, which does not leave the function.  \<open>d2d_svg_document_create\<close> returns
  (given a factory), and when its result is not \<open>S_OK\<close> it stores no document and
  leaves nothing behind: the buffer is freed, and when it is the allocation of the
  object that failed, the last call is \<open>g_object_unref\<close> on the handle that the parser
  had returned.
\<close>

theorem create_failure_releases:
  assumes "librsvg_bound s"
  shows "fst (rsvg_create_handle E p s) \<noteq> Fault
     \<and> (\<forall>st p' s'. rsvg_create_handle E p s = (Ret st, p', s') \<and> st \<noteq> STATUS_SUCCESS \<longrightarrow>
          handle p' = 0 \<and> leaked (new_events s s') = {#})
     \<and> (\<forall>err. fst (load_librsvg E s) \<and> new_from_data_ret E (data p) (size p) = (0, err)
            \<and> err \<noteq> 0 \<longrightarrow>
          fst (rsvg_create_handle E p s) = Ret STATUS_UNSUCCESSFUL
          \<and> (\<exists>es. new_events s (snd (snd (rsvg_create_handle E p s))) =
                es @ [Rsvg_handle_new_from_data (data p) (size p) 0 err, G_error_free err]))
     \<and> (f \<noteq> 0 \<longrightarrow> fst (d2d_svg_document_create H E f v s) \<noteq> Fault)
     \<and> (\<forall>hr doc s'. d2d_svg_document_create H E f v s = (Ret hr, doc, s') \<and> hr \<noteq> S_OK \<longrightarrow>
          doc = None \<and> documents s' = documents s \<and> leaked (new_events s s') = {#}
          \<and> (hr = E_OUTOFMEMORY \<and> buffer_alloc_ret H \<noteq> 0 \<longrightarrow>
               (\<exists>es bytes h err. h \<noteq> 0 \<and> new_events s s' =
                  es @ [Rsvg_handle_new_from_data bytes (of_nat (length bytes)) h err,
                        HeapFree (buffer_alloc_ret H), HeapAllocZero 0, G_object_unref h])))"
proof -
  have a: "fst (rsvg_create_handle E p s) \<noteq> Fault"
    using rsvg_create_handle_held [OF assms, of E p] by (metis prod.collapse)
  have b: "handle p' = 0 \<and> leaked (new_events s s') = {#}"
    if "rsvg_create_handle E p s = (Ret st, p', s')" "st \<noteq> STATUS_SUCCESS" for st p' s'
    using rsvg_create_handle_held [OF assms that(1)] that(2)
    by (auto simp: leaked_def new_events_def)
  note c = rsvg_create_handle_error_freed [OF assms, of E p]
  note d = create_no_fault [OF assms, of f H E v]
  note e = create_failure [OF assms, of H E f v]
  from a b c d e show ?thesis
    by blast
qed

text \<open>
  From the initial state: an empty buffer, which the parser of \<open>example_env\<close> rejects
  with an error object; and a document whose object cannot be allocated.
\<close>

theorem create_failure_releases_witness:
  "librsvg_bound (initial_state fninit)
   \<and> fst (rsvg_create_handle example_env \<lparr>data = [], size = 0, handle = 9\<rparr>
            (initial_state fninit)) = Ret STATUS_UNSUCCESSFUL
   \<and> handle (fst (snd (rsvg_create_handle example_env \<lparr>data = [], size = 0, handle = 9\<rparr>
                         (initial_state fninit)))) = 0
   \<and> leaked (new_events (initial_state fninit)
        (snd (snd (rsvg_create_handle example_env \<lparr>data = [], size = 0, handle = 9\<rparr>
                     (initial_state fninit))))) = {#}
   \<and> fst (d2d_svg_document_create (example_host\<lparr>object_alloc_ret := 0\<rparr>) example_env 40
            (Fin 100, Fin 100) (initial_state fninit)) = Ret E_OUTOFMEMORY
   \<and> leaked (new_events (initial_state fninit)
        (snd (snd (d2d_svg_document_create (example_host\<lparr>object_alloc_ret := 0\<rparr>) example_env 40
                     (Fin 100, Fin 100) (initial_state fninit))))) = {#}"
proof -
  let ?p = "\<lparr>data = [], size = 0, handle = 9\<rparr>"
  let ?H = "example_host\<lparr>object_alloc_ret := 0\<rparr>"
  let ?u = "rsvg_create_handle example_env ?p (initial_state fninit)"
  let ?c = "d2d_svg_document_create ?H example_env 40 (Fin 100, Fin 100) (initial_state fninit)"
  have inv: "librsvg_bound (initial_state fninit)"
    by (rule librsvg_bound_initial)
  have u: "fst ?u = Ret STATUS_UNSUCCESSFUL"
    by (simp add: rsvg_create_handle_def load_librsvg_def dlopen_def dlsym_def call_def
        example_env_def initial_state_def)
  then have u': "?u = (Ret STATUS_UNSUCCESSFUL, fst (snd ?u), snd (snd ?u))"
    by (simp add: prod_eq_iff)
  have c: "fst ?c = Ret E_OUTOFMEMORY"
    by (simp add: d2d_svg_document_create_def rsvg_create_handle_def rsvg_free_handle_def
        load_librsvg_def dlopen_def dlsym_def call_def Let_def
        example_env_def example_host_def initial_state_def status_defs)
  then have c': "?c = (Ret E_OUTOFMEMORY, fst (snd ?c), snd (snd ?c))"
    by (simp add: prod_eq_iff)
  have ne: "STATUS_UNSUCCESSFUL \<noteq> STATUS_SUCCESS" "E_OUTOFMEMORY \<noteq> S_OK"
    by (simp_all add: status_defs)
  note inst = create_failure_releases [OF inv, of example_env ?p 40 ?H "(Fin 100, Fin 100)"]
  from inst have "\<forall>st p' s'. ?u = (Ret st, p', s') \<and> st \<noteq> STATUS_SUCCESS \<longrightarrow>
      handle p' = 0 \<and> leaked (new_events (initial_state fninit) s') = {#}"
    by (elim conjE)
  with u' ne(1) have 1: "handle (fst (snd ?u)) = 0
      \<and> leaked (new_events (initial_state fninit) (snd (snd ?u))) = {#}"
    by blast
  from inst have "\<forall>hr doc s'. ?c = (Ret hr, doc, s') \<and> hr \<noteq> S_OK \<longrightarrow>
      doc = None \<and> documents s' = documents (initial_state fninit)
      \<and> leaked (new_events (initial_state fninit) s') = {#}
      \<and> (hr = E_OUTOFMEMORY \<and> buffer_alloc_ret ?H \<noteq> 0 \<longrightarrow>
               (\<exists>es bytes h err. h \<noteq> 0 \<and> new_events (initial_state fninit) s' =
                  es @ [Rsvg_handle_new_from_data bytes (of_nat (length bytes)) h err,
                        HeapFree (buffer_alloc_ret ?H), HeapAllocZero 0, G_object_unref h]))"
    by (elim conjE)
  with c' ne(2) have 2: "leaked (new_events (initial_state fninit) (snd (snd ?c))) = {#}"
    by blast
  from inv u c 1 2 show ?thesis
    by (intro conjI) (elim conjE, assumption)+
qed

subsection \<open>The invariant of the parser library is kept\<close>

lemma load_cairo_librsvg_bound: "librsvg_bound (snd (load_cairo E s)) = librsvg_bound s"
  by (simp add: load_cairo_def dlopen_def dlsym_def Let_def librsvg_bound_def)

lemma rsvg_create_handle_bound:
  "librsvg_bound s \<Longrightarrow> librsvg_bound (snd (snd (rsvg_create_handle E p s)))"
  using load_librsvg_bound [of s E]
  by (auto simp: rsvg_create_handle_def call_def Let_def
      split: prod.splits bool.splits option.splits)

section \<open>Resource wrapper: the reference count\<close>

subsection \<open>One call\<close>

lemma set_document_twice [simp]:
  "set_document a d (set_document a d' s) = set_document a d s"
  by (simp add: set_document_def fun_eq_iff)

lemma set_document_same: "documents s a = d \<Longrightarrow> set_document a d s = s"
  by (simp add: set_document_def fun_eq_iff)

lemma AddRef_document:
  "documents s a = Some d \<Longrightarrow>
     d2d_svg_document_AddRef a s
       = (Ret (refcount d + 1), set_document a (Some (d\<lparr>refcount := refcount d + 1\<rparr>)) s)"
  by (simp add: d2d_svg_document_AddRef_def Let_def)

lemma Release_keeps:
  "documents s a = Some d \<Longrightarrow> refcount d \<noteq> 1 \<Longrightarrow>
     d2d_svg_document_Release H E a s
       = (Ret (refcount d - 1), set_document a (Some (d\<lparr>refcount := refcount d - 1\<rparr>)) s)"
  by (simp add: d2d_svg_document_Release_def Let_def)

lemma Release_last:
  assumes "documents s a = Some d" "refcount d = 1"
  shows "\<exists>s'. d2d_svg_document_Release H E a s = (Ret 0, s')
     \<and> documents s' a = None \<and> trace s' = trace s @ teardown H s a d"
  using assms
  by (simp add: d2d_svg_document_Release_def Let_def rsvg_free_handle_def call_def teardown_def)

subsection \<open>Many calls\<close>

lemma repeated_AddRef:
  "documents s a = Some d \<Longrightarrow>
     repeated n (d2d_svg_document_AddRef a) s
       = Some (set_document a (Some (d\<lparr>refcount := refcount d + of_nat n\<rparr>)) s)"
proof (induction n arbitrary: s d)
  case 0
  then show ?case
    by (simp add: set_document_same)
next
  case (Suc n)
  let ?d = "d\<lparr>refcount := refcount d + 1\<rparr>"
  let ?s = "set_document a (Some ?d) s"
  have "documents ?s a = Some ?d"
    by simp
  from Suc.IH [OF this] show ?case
    by (simp add: AddRef_document [OF Suc.prems] ac_simps)
qed

lemma of_nat_32_neq:
  assumes "m < 2 ^ 32" "m \<noteq> 1"
  shows "(of_nat m :: 32 word) \<noteq> 1"
proof
  assume "(of_nat m :: 32 word) = 1"
  then have "unat (of_nat m :: 32 word) = 1"
    by simp
  moreover have "unat (of_nat m :: 32 word) = m"
    using assms(1) by (simp add: unat_of_nat)
  ultimately show False
    using assms(2) by simp
qed

lemma repeated_Release:
  "documents s a = Some d \<Longrightarrow> refcount d = of_nat m \<Longrightarrow> n < m \<Longrightarrow> m \<le> 2 ^ 32 \<Longrightarrow>
     repeated n (d2d_svg_document_Release H E a) s
       = Some (set_document a (Some (d\<lparr>refcount := of_nat (m - n)\<rparr>)) s)"
proof (induction n arbitrary: s d m)
  case 0
  then show ?case
    by (simp add: set_document_same)
next
  case (Suc n)
  let ?d = "d\<lparr>refcount := refcount d - 1\<rparr>"
  let ?s = "set_document a (Some ?d) s"
  have ne: "refcount d \<noteq> 1"
  proof (cases "m = 2 ^ 32")
    case True
    with Suc.prems(2) show ?thesis
      by simp
  next
    case False
    with Suc.prems show ?thesis
      by (simp add: of_nat_32_neq)
  qed
  have doc: "documents ?s a = Some ?d"
    by simp
  have rc: "refcount ?d = of_nat (m - 1)"
    using Suc.prems by simp
  from Suc.IH [OF doc rc] Suc.prems show ?case
    by (simp add: Release_keeps [OF Suc.prems(1) ne])
qed


lemma repeated_Suc_end:
  "repeated (Suc n) f s =
     (case repeated n f s of None \<Rightarrow> None | Some s' \<Rightarrow> repeated (Suc 0) f s')"
proof (induction n arbitrary: s)
  case 0
  show ?case
    by simp
next
  case (Suc n)
  obtain r s' where fs: "f s = (r, s')"
    by (cases "f s")
  show ?case
  proof (cases r)
    case Fault
    with fs show ?thesis
      by simp
  next
    case (Ret x)
    have "repeated (Suc (Suc n)) f s = repeated (Suc n) f s'"
      using fs Ret by simp
    moreover have "repeated (Suc n) f s = repeated n f s'"
      using fs Ret by simp
    ultimately show ?thesis
      using Suc.IH [of s'] by (simp only:)
  qed
qed

lemma teardown_frees_once: "count_list (teardown H s a d) (HeapFree a) = 1"
  by (simp add: teardown_def)

lemma AddRef_Release:
  assumes "documents s a = Some d" "refcount d \<noteq> 0"
  shows "d2d_svg_document_Release H E a (snd (d2d_svg_document_AddRef a s))
           = (Ret (refcount d), s)"
proof -
  let ?d = "d\<lparr>refcount := refcount d + 1\<rparr>"
  let ?s = "set_document a (Some ?d) s"
  have doc: "documents ?s a = Some ?d"
    by simp
  have ne: "refcount ?d \<noteq> 1"
    using assms(2) by simp
  show ?thesis
    using assms(1)
    by (simp add: AddRef_document [OF assms(1)] Release_keeps [OF doc ne] set_document_same)
qed

lemma N_AddRefs_N1_Releases:
  assumes doc: "documents s a = Some d" and one: "refcount d = 1" and N: "N < 2 ^ 32"
  shows "\<exists>s1 s2. repeated N (d2d_svg_document_AddRef a) s = Some s1
     \<and> repeated N (d2d_svg_document_Release H E a) s1 = Some s
     \<and> repeated (Suc N) (d2d_svg_document_Release H E a) s1 = Some s2
     \<and> documents s2 a = None \<and> new_events s s2 = teardown H s a d"
proof -
  let ?d = "d\<lparr>refcount := refcount d + of_nat N\<rparr>"
  let ?s1 = "set_document a (Some ?d) s"
  have up: "repeated N (d2d_svg_document_AddRef a) s = Some ?s1"
    using doc by (rule repeated_AddRef)
  have doc1: "documents ?s1 a = Some ?d"
    by simp
  have rc1: "refcount ?d = of_nat (Suc N)"
    using one by simp
  have restore: "set_document a (Some (?d\<lparr>refcount := of_nat (Suc N - N)\<rparr>)) ?s1 = s"
    using doc one by (simp add: set_document_same)
  have down: "repeated N (d2d_svg_document_Release H E a) ?s1 = Some s"
    using repeated_Release [OF doc1 rc1, of N H E] N restore by simp
  obtain s2 where last: "d2d_svg_document_Release H E a s = (Ret 0, s2)"
    "documents s2 a = None" "trace s2 = trace s @ teardown H s a d"
    using Release_last [OF doc one] by blast
  have "repeated (Suc N) (d2d_svg_document_Release H E a) ?s1
      = repeated (Suc 0) (d2d_svg_document_Release H E a) s"
    by (subst repeated_Suc_end) (simp only: down option.case)
  then have "repeated (Suc N) (d2d_svg_document_Release H E a) ?s1 = Some s2"
    by (simp add: last(1))
  with up down last(2,3) show ?thesis
    by (simp add: new_events_def)
qed

text \<open>
  Claim C4, amended.  For a document with count \<open>n\<close> (the calls are taken one after
  the other; the atomicity of the interlocked operations is not part of the model):
  \<open>AddRef\<close> returns \<open>n + 1\<close> when \<open>n < 2^32 - 1\<close> and makes no call; for \<open>n \<ge> 1\<close>, an
  \<open>AddRef\<close> followed by a \<open>Release\<close> returns \<open>n\<close> and restores the state; for \<open>n \<ge> 1\<close>,
  \<open>Release\<close> returns \<open>n - 1\<close>, and the teardown (free the native handle, release the
  factory, free the memory, once) happens exactly when \<open>n = 1\<close>; from a count of 1,
  \<open>N < 2^32\<close> calls of \<open>AddRef\<close> followed by \<open>N + 1\<close> calls of \<open>Release\<close> make exactly the
  calls of one teardown, in the last \<open>Release\<close>.
\<close>

theorem refcount_contract:
  assumes "documents s a = Some d"
  shows "(unat (refcount d) < 2 ^ 32 - 1 \<longrightarrow>
            (\<exists>r s1. d2d_svg_document_AddRef a s = (Ret r, s1)
               \<and> unat r = unat (refcount d) + 1
               \<and> documents s1 a = Some (d\<lparr>refcount := r\<rparr>) \<and> new_events s s1 = []))
     \<and> (1 \<le> unat (refcount d) \<longrightarrow>
            d2d_svg_document_Release H E a (snd (d2d_svg_document_AddRef a s))
              = (Ret (refcount d), s))
     \<and> (1 \<le> unat (refcount d) \<longrightarrow>
            (\<exists>r s1. d2d_svg_document_Release H E a s = (Ret r, s1)
               \<and> unat r = unat (refcount d) - 1
               \<and> (if unat (refcount d) = 1
                   then documents s1 a = None \<and> new_events s s1 = teardown H s a d
                   else documents s1 a = Some (d\<lparr>refcount := r\<rparr>) \<and> new_events s s1 = [])))
     \<and> count_list (teardown H s a d) (HeapFree a) = 1
     \<and> (refcount d = 1 \<and> N < 2 ^ 32 \<longrightarrow>
            (\<exists>s1 s2. repeated N (d2d_svg_document_AddRef a) s = Some s1
               \<and> repeated N (d2d_svg_document_Release H E a) s1 = Some s
               \<and> repeated (Suc N) (d2d_svg_document_Release H E a) s1 = Some s2
               \<and> documents s2 a = None \<and> new_events s s2 = teardown H s a d))"
proof -
  have a: "\<exists>r s1. d2d_svg_document_AddRef a s = (Ret r, s1)
      \<and> unat r = unat (refcount d) + 1
      \<and> documents s1 a = Some (d\<lparr>refcount := r\<rparr>) \<and> new_events s s1 = []"
    if "unat (refcount d) < 2 ^ 32 - 1"
  proof -
    have "unat (refcount d + 1) = unat (refcount d) + 1"
      using that by (simp add: unat_word_ariths)
    then show ?thesis
      by (simp add: AddRef_document [OF assms] new_events_def)
  qed
  have b: "d2d_svg_document_Release H E a (snd (d2d_svg_document_AddRef a s))
      = (Ret (refcount d), s)" if "1 \<le> unat (refcount d)"
  proof -
    from that have "refcount d \<noteq> 0"
      by auto
    with assms show ?thesis
      by (rule AddRef_Release)
  qed
  have c: "\<exists>r s1. d2d_svg_document_Release H E a s = (Ret r, s1)
      \<and> unat r = unat (refcount d) - 1
      \<and> (if unat (refcount d) = 1
          then documents s1 a = None \<and> new_events s s1 = teardown H s a d
          else documents s1 a = Some (d\<lparr>refcount := r\<rparr>) \<and> new_events s s1 = [])"
    if "1 \<le> unat (refcount d)"
  proof (cases "refcount d = 1")
    case True
    from Release_last [OF assms True, of H E] True show ?thesis
      by (auto simp: new_events_def)
  next
    case False
    then have ne: "unat (refcount d) \<noteq> 1"
      by (metis unat_1 word_unat_eq_iff)
    have "unat (refcount d - 1) = unat (refcount d) - 1"
      using that by (simp add: unat_sub word_le_nat_alt)
    with ne show ?thesis
      by (simp add: Release_keeps [OF assms False] new_events_def)
  qed
  note d = teardown_frees_once [of H s a d]
  note e = N_AddRefs_N1_Releases [OF assms, of N H E]
  from a b c d e show ?thesis
    by blast
qed


text \<open>A document with a count of 1 in the loaded state, at the address 900.\<close>

theorem refcount_contract_witness:
  "documents (set_document 900 (Some example_document) loaded_state) 900 = Some example_document
   \<and> unat (refcount example_document) = 1
   \<and> (\<exists>r s1. d2d_svg_document_AddRef 900
                 (set_document 900 (Some example_document) loaded_state) = (Ret r, s1)
          \<and> unat r = 2)
   \<and> d2d_svg_document_Release example_host example_env 900
         (snd (d2d_svg_document_AddRef 900
                 (set_document 900 (Some example_document) loaded_state)))
       = (Ret 1, set_document 900 (Some example_document) loaded_state)
   \<and> (\<exists>r s1. d2d_svg_document_Release example_host example_env 900
                 (set_document 900 (Some example_document) loaded_state) = (Ret r, s1)
          \<and> unat r = 0 \<and> documents s1 900 = None
          \<and> new_events (set_document 900 (Some example_document) loaded_state) s1
              = [G_object_unref 500, ID2D1Factory_Release 40, HeapFree 900])
   \<and> (\<exists>s1 s2. repeated 3 (d2d_svg_document_AddRef 900)
                  (set_document 900 (Some example_document) loaded_state) = Some s1
          \<and> repeated (Suc 3) (d2d_svg_document_Release example_host example_env 900) s1
              = Some s2
          \<and> documents s2 900 = None
          \<and> new_events (set_document 900 (Some example_document) loaded_state) s2
              = [G_object_unref 500, ID2D1Factory_Release 40, HeapFree 900])"
proof -
  let ?s = "set_document 900 (Some example_document) loaded_state"
  have doc: "documents ?s 900 = Some example_document"
    by simp
  have n: "unat (refcount example_document) = 1" "refcount example_document = 1"
    by (simp_all add: example_document_def)
  have td: "teardown example_host ?s 900 example_document
      = [G_object_unref 500, ID2D1Factory_Release 40, HeapFree 900]"
    by (simp add: teardown_def example_defs)
  note inst = refcount_contract [OF doc, of example_host example_env 3]
  from inst n td have 1: "\<exists>r s1. d2d_svg_document_AddRef 900 ?s = (Ret r, s1) \<and> unat r = 2"
    by auto
  from inst n have 2: "d2d_svg_document_Release example_host example_env 900
      (snd (d2d_svg_document_AddRef 900 ?s)) = (Ret 1, ?s)"
    by simp
  from inst n td have 3: "\<exists>r s1. d2d_svg_document_Release example_host example_env 900 ?s
        = (Ret r, s1) \<and> unat r = 0 \<and> documents s1 900 = None
      \<and> new_events ?s s1 = [G_object_unref 500, ID2D1Factory_Release 40, HeapFree 900]"
    by auto
  from inst n td have 4: "\<exists>s1 s2. repeated 3 (d2d_svg_document_AddRef 900) ?s = Some s1
      \<and> repeated (Suc 3) (d2d_svg_document_Release example_host example_env 900) s1 = Some s2
      \<and> documents s2 900 = None
      \<and> new_events ?s s2 = [G_object_unref 500, ID2D1Factory_Release 40, HeapFree 900]"
    by auto
  from doc n(1) 1 2 3 4 show ?thesis
    by (intro conjI)
qed

text \<open>
  Claim C4, as stated, fails at the top of the 32-bit range: from a count of
  \<open>2^32 - 1\<close>, \<open>AddRef\<close> returns 0.
\<close>

theorem AddRef_wraps_at_maximum:
  "1 \<le> unat (0xFFFFFFFF :: 32 word)
   \<and> unat (0xFFFFFFFF :: 32 word) + 1 = 4294967296
   \<and> fst (d2d_svg_document_AddRef 900
            (set_document 900 (Some (example_document\<lparr>refcount := 0xFFFFFFFF\<rparr>)) loaded_state))
       = Ret 0"
  by (simp add: d2d_svg_document_AddRef_def)

text \<open>
  The bound on \<open>N\<close> is needed as well: after \<open>2^32\<close> calls of \<open>AddRef\<close> the count is 1
  again, the first \<open>Release\<close> frees the document and the second one is a call on freed
  memory.
\<close>

lemma Release_after_wrap_faults:
  assumes "documents s a = Some d" "refcount d = 1"
  shows "repeated (2 ^ 32) (d2d_svg_document_AddRef a) s = Some s
     \<and> repeated (Suc (Suc 0)) (d2d_svg_document_Release H E a) s = None"
proof -
  have "set_document a (Some (d\<lparr>refcount := refcount d + of_nat (2 ^ 32)\<rparr>)) s = s"
    using assms(1) by (simp add: set_document_same)
  then have up: "repeated (2 ^ 32) (d2d_svg_document_AddRef a) s = Some s"
    using repeated_AddRef [OF assms(1), of "2 ^ 32"] by simp
  obtain s2 where last: "d2d_svg_document_Release H E a s = (Ret 0, s2)"
    "documents s2 a = None"
    using Release_last [OF assms] by blast
  have "d2d_svg_document_Release H E a s2 = (Fault, s2)"
    using last(2) by (simp add: d2d_svg_document_Release_def)
  with up last(1) show ?thesis
    by simp
qed

section \<open>Supplementary facts\<close>

text \<open>\<open>loaded_state\<close> is what the two loaders reach from the initial state.\<close>

lemma loaded_state_reached:
  "(snd (load_cairo example_env (snd (load_librsvg example_env (initial_state fninit)))))
     \<lparr>fpu := fninit, trace := []\<rparr> = loaded_state"
  by (simp add: load_librsvg_def load_cairo_def dlopen_def dlsym_def native_def
      example_env_def loaded_state_def initial_state_def)

text \<open>The Unix-side commands keep the pointers of a loaded parser library bound.\<close>

lemma render_done_librsvg_bound:
  "librsvg_bound (snd (render_done E ret sf cr s)) = librsvg_bound s"
  by (simp add: render_done_def call_def librsvg_bound_def)

lemma librsvg_bound_mxcsr [simp]: "librsvg_bound (s\<lparr>mxcsr := m\<rparr>) = librsvg_bound s"
  by (simp add: librsvg_bound_def)

lemma librsvg_bound_fpu [simp]: "librsvg_bound (s\<lparr>fpu := f\<rparr>) = librsvg_bound s"
  by (simp add: librsvg_bound_def)

lemma render_draw_librsvg_bound:
  "librsvg_bound (snd (render_draw E p s)) = librsvg_bound s"
  by (simp add: render_draw_unfold call_def render_done_librsvg_bound
      split: option.splits)

lemma rsvg_render_librsvg_bound:
  assumes "librsvg_bound s"
  shows "librsvg_bound (snd (rsvg_render E p s))"
proof -
  let ?s0 = "s\<lparr>mxcsr := mxcsr s OR viewport_flags E p\<rparr>"
  have s0: "librsvg_bound ?s0"
    using assms by simp
  have "librsvg_bound (snd (load_cairo E (snd (load_librsvg E ?s0))))"
    using s0 by (simp add: load_cairo_librsvg_bound load_librsvg_bound)
  with assms load_librsvg_bound [OF s0, of E] show ?thesis
    by (auto simp: rsvg_render_unfold render_done_librsvg_bound render_draw_librsvg_bound
        split: prod.splits bool.splits)
qed

lemma rsvg_free_handle_librsvg_bound:
  "librsvg_bound (snd (rsvg_free_handle E p s)) = librsvg_bound s"
  by (simp add: rsvg_free_handle_def call_def)

text \<open>
  Teardown on the other paths.  With both libraries loaded and a request that passes the
  parameter gates, unless context creation fails after the surface was created, the
  calls end with the destruction of the context and then of the surface, when a surface
  was created, and no call before them destroys anything.
\<close>

lemma rsvg_render_teardown:
  assumes "libs_ready s" "passes_parameter_gates p"
    and "created_surface E p = 0 \<or> created_context E p \<noteq> 0"
  shows "\<exists>es. new_events s (snd (rsvg_render E p s)) =
           es @ (if created_surface E p = 0 then []
                 else [Cairo_destroy (created_context E p),
                       Cairo_surface_destroy (created_surface E p)])
         \<and> list_all (\<lambda>e. released e = []) es"
  using assms
  by (auto simp: rsvg_render_ready render_draw_unfold libs_ready_def cairo_bound_def call_def
      render_done_def passes_parameter_gates_def new_events_def)

text \<open>
  A NaN viewport width passes the viewport gate and gives a NaN scale, for which both
  comparisons of the scale gate are false: the request is drawn.
\<close>

lemma nan_scale_not_rejected:
  "\<not> scale_out_of_range example_env (example_request\<lparr>svg_width := NaN\<rparr>)
   \<and> fst (rsvg_render example_env (example_request\<lparr>svg_width := NaN\<rparr>) loaded_state)
       = Ret STATUS_SUCCESS"
  by (simp add: render_defs example_defs double_defs
      scale_out_of_range_def request_scale_x_def request_scale_y_def)

end
